theory Spec2Isabelle
  imports Complex_Main "HOL-Library.Multiset" "HOL-Library.Sublist"
begin

section \<open>pytest-testrail: the result publisher of plugin.py\<close>

text \<open>
  A shallow embedding of \<^verbatim>\<open>src/pytest_testrail/plugin.py\<close>. Python integers are
  \<^typ>\<open>int\<close>, strings are \<^typ>\<open>string\<close>, a duration (a Python float or int) is the
  rational number it denotes, exceptions are values of \<open>py_error\<close>. The remote client is
  not part of the plugin: it is a parameter of every operation that talks to it.
\<close>

subsection \<open>Constants\<close>

datatype py_error = AttributeError | KeyError

definition newline :: char where
  "newline = CHR 0x0A"

definition TESTRAIL_PREFIX :: string where
  "TESTRAIL_PREFIX = ''testrail''"

definition COMMENT_SIZE_LIMIT :: nat where
  "COMMENT_SIZE_LIMIT = 4000"

text \<open>\<^verbatim>\<open>PYTEST_TO_TESTRAIL_STATUS\<close>: a dictionary, looked up by \<^verbatim>\<open>get_test_outcome\<close>.\<close>

definition PYTEST_TO_TESTRAIL_STATUS :: "string \<rightharpoonup> int" where
  "PYTEST_TO_TESTRAIL_STATUS =
     [''passed'' \<mapsto> 1, ''failed'' \<mapsto> 5, ''skipped'' \<mapsto> 2]"

definition get_test_outcome :: "string \<Rightarrow> py_error + int" where
  "get_test_outcome outcome =
     (case PYTEST_TO_TESTRAIL_STATUS outcome of None \<Rightarrow> Inl KeyError | Some s \<Rightarrow> Inr s)"

subsection \<open>Decimal text of integers: \<^verbatim>\<open>str(n)\<close> and \<^verbatim>\<open>int(s)\<close>\<close>

definition is_digit :: "char \<Rightarrow> bool" where
  "is_digit c = (48 \<le> (of_char c :: nat) \<and> (of_char c :: nat) \<le> 57)"

definition digit_char :: "nat \<Rightarrow> char" where
  "digit_char d = char_of (48 + d)"

fun str_nat :: "nat \<Rightarrow> string" where
  "str_nat n = (if n < 10 then [digit_char n] else str_nat (n div 10) @ [digit_char (n mod 10)])"

declare str_nat.simps [simp del]

definition str_int :: "int \<Rightarrow> string" where
  "str_int i = (if i < 0 then CHR ''-'' # str_nat (nat (- i)) else str_nat (nat i))"

text \<open>\<^verbatim>\<open>int(s)\<close> on a non-empty string of ASCII digits.\<close>

definition int_of_digits :: "string \<Rightarrow> int" where
  "int_of_digits ds = foldl (\<lambda>a c. 10 * a + (int (of_char c) - 48)) 0 ds"

subsection \<open>\<^verbatim>\<open>clean_test_ids\<close>\<close>

text \<open>
  \<^verbatim>\<open>re.search('(?P<test_id>[0-9]+$)', test_id)\<close>. A match that starts at a given
  position takes the longest run of digits there (\<^verbatim>\<open>+\<close> is greedy; a shorter run is
  followed by a digit, where \<^verbatim>\<open>$\<close> cannot match), and Python's \<^verbatim>\<open>$\<close> without
  \<^verbatim>\<open>re.MULTILINE\<close> matches at the end of the string and also just before a newline
  that is the last character of the string.
\<close>

definition match_here :: "string \<Rightarrow> string option" where
  "match_here s =
     (let ds = takeWhile is_digit s; rest = dropWhile is_digit s
      in if ds \<noteq> [] \<and> (rest = [] \<or> rest = [newline]) then Some ds else None)"

text \<open>\<^verbatim>\<open>re.search\<close> tries the start positions from left to right.\<close>

fun re_search :: "string \<Rightarrow> string option" where
  "re_search [] = match_here []"
| "re_search (c # cs) =
     (case match_here (c # cs) of Some ds \<Rightarrow> Some ds | None \<Rightarrow> re_search cs)"

text \<open>
  One element of the list comprehension: a failed search returns \<^verbatim>\<open>None\<close>, and
  \<^verbatim>\<open>None.groupdict()\<close> raises AttributeError.
\<close>

definition clean_test_id :: "string \<Rightarrow> py_error + int" where
  "clean_test_id test_id =
     (case re_search test_id of None \<Rightarrow> Inl AttributeError | Some ds \<Rightarrow> Inr (int_of_digits ds))"

fun clean_test_ids :: "string list \<Rightarrow> py_error + int list" where
  "clean_test_ids [] = Inr []"
| "clean_test_ids (t # ts) =
     (case clean_test_id t of
        Inl e \<Rightarrow> Inl e
      | Inr n \<Rightarrow> (case clean_test_ids ts of Inl e \<Rightarrow> Inl e | Inr ns \<Rightarrow> Inr (n # ns)))"

text \<open>The longest run of decimal digits at the end of a string.\<close>

definition trailing_digits :: "string \<Rightarrow> string" where
  "trailing_digits s = rev (takeWhile is_digit (rev s))"

text \<open>
  No digit stands at the end of the string, nor before a newline that ends it.
\<close>

definition no_digits_at_end :: "string \<Rightarrow> bool" where
  "no_digits_at_end s =
     (trailing_digits s = [] \<and> (s = [] \<or> last s \<noteq> newline \<or> trailing_digits (butlast s) = []))"

subsection \<open>Result records\<close>

text \<open>
  The \<^verbatim>\<open>comment\<close> of a record is \<^verbatim>\<open>rep.longrepr\<close>: \<^verbatim>\<open>None\<close>, a string, or
  a failure representation, an object that is true in a condition and that \<^verbatim>\<open>str\<close>
  turns into text.
\<close>

datatype comment = PyNone | PyStr string | PyObj string

fun truthy_comment :: "comment \<Rightarrow> bool" where
  "truthy_comment PyNone = False"
| "truthy_comment (PyStr s) = (s \<noteq> [])"
| "truthy_comment (PyObj s) = True"

fun str_comment :: "comment \<Rightarrow> string" where
  "str_comment PyNone = ''None''"
| "str_comment (PyStr s) = s"
| "str_comment (PyObj s) = s"

record result =
  case_id :: int
  status_id :: int
  comment :: comment
  duration :: rat

subsection \<open>The remote client\<close>

text \<open>The payload of \<^verbatim>\<open>add_result_for_case\<close>; an absent key is \<open>None\<close>.\<close>

record result_data =
  d_status_id :: int
  d_version :: "string option"
  d_comment :: "string option"
  d_elapsed :: "string option"

text \<open>The payload of \<^verbatim>\<open>add_run\<close>.\<close>

record run_data =
  rd_suite_id :: int
  rd_name :: string
  rd_assignedto_id :: int
  rd_include_all :: bool
  rd_case_ids :: "int list"
  rd_milestone_id :: int

datatype payload = ResultData result_data | RunData run_data | NoData

text \<open>A call of the client: \<^verbatim>\<open>send_get(url, cert_check)\<close> or \<^verbatim>\<open>send_post(url, data, cert_check)\<close>.\<close>

datatype request = SendGet string bool | SendPost string payload bool

text \<open>
  What the plugin reads from a response: the value of \<^verbatim>\<open>client.get_error(response)\<close>
  and the keys \<^verbatim>\<open>id\<close>, \<^verbatim>\<open>is_completed\<close> and \<^verbatim>\<open>entries\<close>. A key that the response
  does not have is \<open>None\<close>; reading it raises KeyError. An entry of a plan is its
  \<^verbatim>\<open>runs\<close> list, if it has one.
\<close>

record run_info =
  run_id :: "int option"
  run_is_completed :: "bool option"

record response =
  r_error :: "string option"
  r_id :: "int option"
  r_is_completed :: "bool option"
  r_entries :: "run_info list option list option"

text \<open>
  The world outside the plugin: the Python version (it decides how \<^verbatim>\<open>round\<close> breaks
  ties), the client, whose answer may depend on the calls made before, and the text of
  \<^verbatim>\<open>datetime.utcnow().strftime(DT_FORMAT)\<close>.
\<close>

datatype py_version = Py2 | Py3

record env =
  py :: py_version
  client :: "request list \<Rightarrow> request \<Rightarrow> response"
  utcnow :: string

text \<open>\<^verbatim>\<open>if error:\<close> on the value of \<^verbatim>\<open>get_error\<close>: \<^verbatim>\<open>None\<close> and the empty string are false.\<close>

definition is_error :: "string option \<Rightarrow> bool" where
  "is_error e = (case e of None \<Rightarrow> False | Some s \<Rightarrow> s \<noteq> [])"

definition str_error :: "string option \<Rightarrow> string" where
  "str_error e = (case e of None \<Rightarrow> ''None'' | Some s \<Rightarrow> s)"

definition ADD_RESULT_URL :: "int \<Rightarrow> int \<Rightarrow> string" where
  "ADD_RESULT_URL r c = ''add_result_for_case/'' @ str_int r @ ''/'' @ str_int c"

definition ADD_TESTRUN_URL :: "int \<Rightarrow> string" where
  "ADD_TESTRUN_URL i = ''add_run/'' @ str_int i"

definition GET_TESTRUN_URL :: "int \<Rightarrow> string" where
  "GET_TESTRUN_URL i = ''get_run/'' @ str_int i"

definition GET_TESTPLAN_URL :: "int \<Rightarrow> string" where
  "GET_TESTPLAN_URL i = ''get_plan/'' @ str_int i"

definition GET_MILESTONE_URL :: "int \<Rightarrow> string" where
  "GET_MILESTONE_URL i = ''get_milestone/'' @ str_int i"

definition CLOSE_TESTRUN_URL :: "int \<Rightarrow> string" where
  "CLOSE_TESTRUN_URL i = ''close_run/'' @ str_int i"

subsection \<open>The plugin object\<close>

text \<open>
  The attributes of \<^verbatim>\<open>PyTestRailPlugin\<close>, and two fields that record what the plugin
  did: \<open>sent\<close>, the calls of the client so far, oldest first, and \<open>printed\<close>, the lines
  written by \<^verbatim>\<open>print\<close>.
\<close>

record plugin =
  assign_user_id :: int
  cert_check :: bool
  project_id :: int
  results :: "result list"
  suite_id :: int
  testrun_name :: "string option"
  testrun_id :: int
  testplan_id :: int
  version :: string
  add_skips :: bool
  milestone_id :: int
  close_run :: bool
  sent :: "request list"
  printed :: "string list"

definition send :: "env \<Rightarrow> request \<Rightarrow> plugin \<Rightarrow> response \<times> plugin" where
  "send e rq p = (client e (sent p) rq, p\<lparr>sent := sent p @ [rq]\<rparr>)"

definition print_line :: "string \<Rightarrow> plugin \<Rightarrow> plugin" where
  "print_line l p = p\<lparr>printed := printed p @ [l]\<rparr>"

definition tag :: string where
  "tag = ''['' @ TESTRAIL_PREFIX @ '']''"

fun join :: "string \<Rightarrow> string list \<Rightarrow> string" where
  "join sep [] = []"
| "join sep [x] = x"
| "join sep (x # y # ys) = x @ sep @ join sep (y # ys)"

text \<open>\<^verbatim>\<open>testrun_name()\<close>\<close>

definition testrun_name_now :: "env \<Rightarrow> string" where
  "testrun_name_now e = ''Automated Run '' @ utcnow e"

text \<open>
  \<^verbatim>\<open>get_testrail_keys(items)\<close>. An item is the \<^verbatim>\<open>ids\<close> of its testrail marker, or
  \<open>None\<close> when it has no marker.
\<close>

fun get_testrail_keys :: "string list option list \<Rightarrow> py_error + int list" where
  "get_testrail_keys [] = Inr []"
| "get_testrail_keys (None # its) = get_testrail_keys its"
| "get_testrail_keys (Some ids # its) =
     (case clean_test_ids ids of
        Inl err \<Rightarrow> Inl err
      | Inr ns \<Rightarrow> (case get_testrail_keys its of Inl err \<Rightarrow> Inl err | Inr ms \<Rightarrow> Inr (ns @ ms)))"

subsection \<open>Building one payload\<close>

text \<open>\<^verbatim>\<open>str.replace('\n', '\n    ')\<close>\<close>

definition indent_newlines :: "string \<Rightarrow> string" where
  "indent_newlines s = concat (map (\<lambda>c. if c = newline then newline # ''    '' else [c]) s)"

text \<open>\<^verbatim>\<open>s[-COMMENT_SIZE_LIMIT:]\<close>: the last 4000 characters, the whole string when it is shorter.\<close>

definition last_chars :: "string \<Rightarrow> string" where
  "last_chars s =
     (if length s \<le> COMMENT_SIZE_LIMIT then s else drop (length s - COMMENT_SIZE_LIMIT) s)"

definition banner :: string where
  "banner = ''# Pytest result: #'' @ [newline]"

definition truncation_marker :: string where
  "truncation_marker = ''Log truncated'' @ [newline] @ ''...'' @ [newline]"

text \<open>The value of \<^verbatim>\<open>data['comment']\<close> for a comment whose \<^verbatim>\<open>str\<close> is \<open>s\<close>.\<close>

definition comment_text :: "string \<Rightarrow> string" where
  "comment_text s =
     banner
     @ (if length s > COMMENT_SIZE_LIMIT then truncation_marker else [])
     @ ''    '' @ indent_newlines (last_chars s)"



text \<open>
  \<^verbatim>\<open>int(round(duration))\<close>. Python 2 rounds a tie away from zero, Python 3 to the even
  neighbour.
\<close>

definition round_half_away :: "rat \<Rightarrow> int" where
  "round_half_away x = (if 0 \<le> x then \<lfloor>x + 1 / 2\<rfloor> else \<lceil>x - 1 / 2\<rceil>)"

definition round_half_even :: "rat \<Rightarrow> int" where
  "round_half_even x =
     (let f = \<lfloor>x\<rfloor>; d = x - of_int f
      in if d < 1 / 2 then f else if 1 / 2 < d then f + 1 else if even f then f else f + 1)"

fun py_round :: "py_version \<Rightarrow> rat \<Rightarrow> int" where
  "py_round Py2 x = round_half_away x"
| "py_round Py3 x = round_half_even x"

text \<open>The value of \<^verbatim>\<open>data['elapsed']\<close> for a duration that is not zero.\<close>

definition elapsed :: "py_version \<Rightarrow> rat \<Rightarrow> string" where
  "elapsed v d = str_int (if d < 1 then 1 else py_round v d) @ ''s''"

definition result_payload :: "env \<Rightarrow> plugin \<Rightarrow> result \<Rightarrow> result_data" where
  "result_payload e p r =
     \<lparr> d_status_id = status_id r,
       d_version = (if version p \<noteq> [] then Some (version p) else None),
       d_comment = (if truthy_comment (comment r)
                    then Some (comment_text (str_comment (comment r))) else None),
       d_elapsed = (if duration r \<noteq> 0 then Some (elapsed (py e) (duration r)) else None) \<rparr>"

subsection \<open>\<^verbatim>\<open>add_result\<close> and \<^verbatim>\<open>add_results\<close>\<close>

definition add_result :: "plugin \<Rightarrow> int list \<Rightarrow> int \<Rightarrow> comment \<Rightarrow> rat \<Rightarrow> plugin" where
  "add_result p test_ids status cmt dur =
     p\<lparr>results := results p @
          map (\<lambda>test_id. \<lparr>case_id = test_id, status_id = status, comment = cmt, duration = dur\<rparr>)
            test_ids\<rparr>"

text \<open>The \<^verbatim>\<open>continue\<close> of the loop: skipped results are not sent when \<^verbatim>\<open>add_skips is False\<close>.\<close>

definition suppressed :: "plugin \<Rightarrow> result_data \<Rightarrow> bool" where
  "suppressed p d =
     (add_skips p = False \<and> PYTEST_TO_TESTRAIL_STATUS ''skipped'' = Some (d_status_id d))"

definition result_request :: "env \<Rightarrow> plugin \<Rightarrow> int \<Rightarrow> result \<Rightarrow> request" where
  "result_request e p run r =
     SendPost (ADD_RESULT_URL run (case_id r)) (ResultData (result_payload e p r)) (cert_check p)"

definition not_published :: "int \<Rightarrow> string option \<Rightarrow> string" where
  "not_published c err =
     tag @ '' Info: Testcase #'' @ str_int c @ '' not published for following reason: \"''
     @ str_error err @ ''\"''"

text \<open>The body of the loop of \<^verbatim>\<open>add_results\<close>, for one record.\<close>

definition publish_one :: "env \<Rightarrow> int \<Rightarrow> plugin \<Rightarrow> result \<Rightarrow> plugin" where
  "publish_one e run p r =
     (if suppressed p (result_payload e p r) then p
      else (let (resp, p1) = send e (result_request e p run r) p
            in if is_error (r_error resp)
               then print_line (not_published (case_id r) (r_error resp)) p1
               else p1))"

fun publish_all :: "env \<Rightarrow> int \<Rightarrow> plugin \<Rightarrow> result list \<Rightarrow> plugin" where
  "publish_all e run p [] = p"
| "publish_all e run p (r # rs) = publish_all e run (publish_one e run p r) rs"

text \<open>The two calls of \<^verbatim>\<open>list.sort\<close>, a stable sort, as \<^const>\<open>sort_key\<close> is.\<close>

definition sort_results :: "result list \<Rightarrow> result list" where
  "sort_results rs = sort_key case_id (sort_key status_id rs)"

definition add_results :: "env \<Rightarrow> plugin \<Rightarrow> int \<Rightarrow> plugin" where
  "add_results e p run =
     (let p1 = p\<lparr>results := sort_results (results p)\<rparr>
      in publish_all e run p1 (results p1))"

subsection \<open>Runs and plans on the remote service\<close>

definition create_test_run ::
  "env \<Rightarrow> plugin \<Rightarrow> int \<Rightarrow> int \<Rightarrow> int \<Rightarrow> string \<Rightarrow> int list \<Rightarrow> int \<Rightarrow> py_error option \<times> plugin" where
  "create_test_run e p assign_user project suite name tr_keys milestone =
     (let data = \<lparr> rd_suite_id = suite, rd_name = name, rd_assignedto_id = assign_user,
                   rd_include_all = False, rd_case_ids = tr_keys, rd_milestone_id = milestone \<rparr>;
          (resp, p1) = send e (SendPost (ADD_TESTRUN_URL project) (RunData data) (cert_check p)) p
      in if is_error (r_error resp)
         then (None, print_line (tag @ '' Failed to create testrun: \"'' @ str_error (r_error resp)
                                  @ ''\"'') p1)
         else (case r_id resp of
                 None \<Rightarrow> (Some KeyError, p1)
               | Some i \<Rightarrow>
                   (None, print_line (tag @ '' New testrun created with name \"'' @ name
                                      @ ''\" and ID='' @ str_int i) (p1\<lparr>testrun_id := i\<rparr>))))"

definition close_test_run :: "env \<Rightarrow> plugin \<Rightarrow> py_error option \<times> plugin" where
  "close_test_run e p =
     (let (resp, p1) = send e (SendPost (CLOSE_TESTRUN_URL (testrun_id p)) NoData (cert_check p)) p
      in if is_error (r_error resp)
         then (None, print_line (tag @ '' Failed to close testrun: \"'' @ str_error (r_error resp)
                                  @ ''\"'') p1)
         else (case r_id resp of
                 None \<Rightarrow> (Some KeyError, p1)
               | Some i \<Rightarrow>
                   (None, print_line (tag @ '' Testrun closed with ID='' @ str_int i)
                            (p1\<lparr>testrun_id := i\<rparr>))))"

text \<open>
  The three availability checks differ in the address and in the message only:
  \<^verbatim>\<open>response['is_completed'] is False\<close>.
\<close>

definition is_available :: "env \<Rightarrow> plugin \<Rightarrow> string \<Rightarrow> string \<Rightarrow> (py_error + bool) \<times> plugin" where
  "is_available e p url what =
     (let (resp, p1) = send e (SendGet url (cert_check p)) p
      in if is_error (r_error resp)
         then (Inr False, print_line (tag @ '' Failed to retrieve '' @ what @ '': \"''
                                      @ str_error (r_error resp) @ ''\"'') p1)
         else (case r_is_completed resp of
                 None \<Rightarrow> (Inl KeyError, p1)
               | Some c \<Rightarrow> (Inr (c = False), p1)))"

definition is_testrun_available :: "env \<Rightarrow> plugin \<Rightarrow> (py_error + bool) \<times> plugin" where
  "is_testrun_available e p = is_available e p (GET_TESTRUN_URL (testrun_id p)) ''testrun''"

definition is_testplan_available :: "env \<Rightarrow> plugin \<Rightarrow> (py_error + bool) \<times> plugin" where
  "is_testplan_available e p = is_available e p (GET_TESTPLAN_URL (testplan_id p)) ''testplan''"

definition is_milestone_available :: "env \<Rightarrow> plugin \<Rightarrow> (py_error + bool) \<times> plugin" where
  "is_milestone_available e p =
     is_available e p (GET_MILESTONE_URL (milestone_id p)) ''milestone''"

text \<open>The inner loop of \<^verbatim>\<open>get_available_testruns\<close>: the open runs of one entry.\<close>

fun open_runs :: "run_info list \<Rightarrow> py_error + int list" where
  "open_runs [] = Inr []"
| "open_runs (r # rs) =
     (case run_is_completed r of
        None \<Rightarrow> Inl KeyError
      | Some c \<Rightarrow>
          (if \<not> c
           then (case run_id r of
                   None \<Rightarrow> Inl KeyError
                 | Some i \<Rightarrow> (case open_runs rs of Inl err \<Rightarrow> Inl err | Inr is \<Rightarrow> Inr (i # is)))
           else open_runs rs))"

fun open_runs_of_entries :: "run_info list option list \<Rightarrow> py_error + int list" where
  "open_runs_of_entries [] = Inr []"
| "open_runs_of_entries (None # es) = Inl KeyError"
| "open_runs_of_entries (Some runs # es) =
     (case open_runs runs of
        Inl err \<Rightarrow> Inl err
      | Inr is \<Rightarrow> (case open_runs_of_entries es of Inl err \<Rightarrow> Inl err | Inr js \<Rightarrow> Inr (is @ js)))"

definition get_available_testruns :: "env \<Rightarrow> plugin \<Rightarrow> int \<Rightarrow> (py_error + int list) \<times> plugin" where
  "get_available_testruns e p plan =
     (let (resp, p1) = send e (SendGet (GET_TESTPLAN_URL plan) (cert_check p)) p
      in if is_error (r_error resp)
         then (Inr [], print_line (tag @ '' Failed to retrieve testplan: \"''
                                   @ str_error (r_error resp) @ ''\"'') p1)
         else (case r_entries resp of
                 None \<Rightarrow> (Inl KeyError, p1)
               | Some es \<Rightarrow> (open_runs_of_entries es, p1)))"

subsection \<open>The hooks\<close>

text \<open>
  \<^verbatim>\<open>pytest_collection_modifyitems\<close>. The conditions
  \<^verbatim>\<open>self.testplan_id and self.is_testplan_available()\<close> and
  \<^verbatim>\<open>self.testrun_id and self.is_testrun_available()\<close> ask the service only when the
  identifier is not zero.
\<close>

definition plan_condition :: "env \<Rightarrow> plugin \<Rightarrow> (py_error + bool) \<times> plugin" where
  "plan_condition e p = (if testplan_id p \<noteq> 0 then is_testplan_available e p else (Inr False, p))"

definition run_condition :: "env \<Rightarrow> plugin \<Rightarrow> (py_error + bool) \<times> plugin" where
  "run_condition e p = (if testrun_id p \<noteq> 0 then is_testrun_available e p else (Inr False, p))"

definition create_branch :: "env \<Rightarrow> plugin \<Rightarrow> int list \<Rightarrow> py_error option \<times> plugin" where
  "create_branch e p tr_keys =
     (let name = (case testrun_name p of None \<Rightarrow> testrun_name_now e | Some n \<Rightarrow> n);
          p1 = p\<lparr>testrun_name := Some name\<rparr>
      in create_test_run e p1 (assign_user_id p1) (project_id p1) (suite_id p1) name tr_keys
           (milestone_id p1))"

definition pytest_collection_modifyitems ::
  "env \<Rightarrow> plugin \<Rightarrow> string list option list \<Rightarrow> py_error option \<times> plugin" where
  "pytest_collection_modifyitems e p items =
     (case get_testrail_keys items of
        Inl err \<Rightarrow> (Some err, p)
      | Inr tr_keys \<Rightarrow>
          (case plan_condition e p of
             (Inl err, p1) \<Rightarrow> (Some err, p1)
           | (Inr True, p1) \<Rightarrow> (None, p1\<lparr>testrun_id := 0\<rparr>)
           | (Inr False, p1) \<Rightarrow>
               (case run_condition e p1 of
                  (Inl err, p2) \<Rightarrow> (Some err, p2)
                | (Inr True, p2) \<Rightarrow> (None, p2\<lparr>testplan_id := 0\<rparr>)
                | (Inr False, p2) \<Rightarrow> create_branch e p2 tr_keys)))"

text \<open>
  \<^verbatim>\<open>pytest_runtest_makereport\<close>, after the \<^verbatim>\<open>yield\<close>: \<open>marker\<close> is the \<^verbatim>\<open>ids\<close> of the
  item's testrail marker, \<open>when\<close> is \<^verbatim>\<open>rep.when\<close>, \<open>outcome\<close> is
  \<^verbatim>\<open>outcome.result.outcome\<close>.
\<close>

definition pytest_runtest_makereport ::
  "plugin \<Rightarrow> string list option \<Rightarrow> string \<Rightarrow> string \<Rightarrow> comment \<Rightarrow> rat \<Rightarrow> py_error option \<times> plugin" where
  "pytest_runtest_makereport p marker when outcome longrepr dur =
     (case marker of
        None \<Rightarrow> (None, p)
      | Some testcaseids \<Rightarrow>
          (if when = ''call'' \<and> testcaseids \<noteq> []
           then (case clean_test_ids testcaseids of
                   Inl err \<Rightarrow> (Some err, p)
                 | Inr ids \<Rightarrow>
                     (case get_test_outcome outcome of
                        Inl err \<Rightarrow> (Some err, p)
                      | Inr status \<Rightarrow> (None, add_result p ids status longrepr dur)))
           else (None, p)))"

text \<open>The loop over the runs of a plan in \<^verbatim>\<open>pytest_sessionfinish\<close>.\<close>

fun add_results_to_runs :: "env \<Rightarrow> plugin \<Rightarrow> int list \<Rightarrow> plugin" where
  "add_results_to_runs e p [] = p"
| "add_results_to_runs e p (run # runs) = add_results_to_runs e (add_results e p run) runs"

definition pytest_sessionfinish :: "env \<Rightarrow> plugin \<Rightarrow> py_error option \<times> plugin" where
  "pytest_sessionfinish e p =
     (let p1 = print_line (tag @ '' Start publishing'') p;
          fin = (\<lambda>q. (None, print_line (tag @ '' End publishing'') q))
      in if results p1 \<noteq> []
         then (let tests_list = map (\<lambda>r. str_int (case_id r)) (results p1);
                   p2 = print_line (tag @ '' Testcases to publish: '' @ join '', '' tests_list) p1
               in if testrun_id p2 \<noteq> 0 then fin (add_results e p2 (testrun_id p2))
                  else if testplan_id p2 \<noteq> 0
                  then (case get_available_testruns e p2 (testplan_id p2) of
                          (Inl err, p3) \<Rightarrow> (Some err, p3)
                        | (Inr testruns, p3) \<Rightarrow>
                            fin (add_results_to_runs e
                                    (print_line (tag @ '' Testruns to update: ''
                                                 @ join '', '' (map str_int testruns)) p3)
                                    testruns))
                  else fin (print_line (tag @ '' No data published'') p2))
         else fin p1)"

text \<open>The requests of \<^verbatim>\<open>add_result_for_case\<close> in a trace.\<close>

fun is_result_submission :: "request \<Rightarrow> bool" where
  "is_result_submission (SendPost url (ResultData d) c) = True"
| "is_result_submission rq = False"

text \<open>\<^verbatim>\<open>PyTestRailPlugin.__init__\<close>: nothing has been sent or printed yet.\<close>

definition PyTestRailPlugin ::
  "int \<Rightarrow> int \<Rightarrow> int \<Rightarrow> bool \<Rightarrow> string option \<Rightarrow> int \<Rightarrow> int \<Rightarrow> string \<Rightarrow> bool \<Rightarrow> int \<Rightarrow> bool
     \<Rightarrow> plugin" where
  "PyTestRailPlugin assign_user project suite cert tr_name run plan ver skips milestone close =
     \<lparr> assign_user_id = assign_user, cert_check = cert, project_id = project, results = [],
       suite_id = suite, testrun_name = tr_name, testrun_id = run, testplan_id = plan,
       version = ver, add_skips = skips, milestone_id = milestone, close_run = close,
       sent = [], printed = [] \<rparr>"

subsection \<open>Clients for examples\<close>

text \<open>A service that accepts every call and knows one open run, number 100.\<close>

definition accepting :: env where
  "accepting =
     \<lparr> py = Py3,
       client = (\<lambda>history rq. \<lparr> r_error = None, r_id = Some 100, r_is_completed = Some False,
                                r_entries = Some [] \<rparr>),
       utcnow = ''01-01-2020 00:00:00'' \<rparr>"

text \<open>A service that answers every call with an error.\<close>

definition refusing :: env where
  "refusing =
     \<lparr> py = Py3,
       client = (\<lambda>history rq. \<lparr> r_error = Some ''denied'', r_id = None, r_is_completed = None,
                                r_entries = None \<rparr>),
       utcnow = ''01-01-2020 00:00:00'' \<rparr>"

text \<open>A service whose runs and plans are all completed and that creates run number 100.\<close>

definition all_completed :: env where
  "all_completed =
     \<lparr> py = Py3,
       client = (\<lambda>history rq.
          case rq of
            SendGet url c \<Rightarrow> \<lparr> r_error = None, r_id = Some 9, r_is_completed = Some True,
                                r_entries = Some [] \<rparr>
          | SendPost url d c \<Rightarrow> \<lparr> r_error = None, r_id = Some 100, r_is_completed = Some False,
                                   r_entries = None \<rparr>),
       utcnow = ''01-01-2020 00:00:00'' \<rparr>"

text \<open>A service whose answers carry no error and none of the keys.\<close>

definition keyless :: env where
  "keyless =
     \<lparr> py = Py3,
       client = (\<lambda>history rq. \<lparr> r_error = None, r_id = None, r_is_completed = None,
                                r_entries = None \<rparr>),
       utcnow = ''01-01-2020 00:00:00'' \<rparr>"

subsection \<open>Notions for the choice of the target\<close>

text \<open>
  The answer to a fetch confirms that the entity is open when it carries no error and its
  completion flag is False; it says that the entity is not available when it carries an
  error or the flag is True.
\<close>

definition confirmed_open :: "response \<Rightarrow> bool" where
  "confirmed_open r = (\<not> is_error (r_error r) \<and> r_is_completed r = Some False)"

definition not_open :: "response \<Rightarrow> bool" where
  "not_open r = (is_error (r_error r) \<or> r_is_completed r = Some True)"

definition plan_request :: "plugin \<Rightarrow> request" where
  "plan_request p = SendGet (GET_TESTPLAN_URL (testplan_id p)) (cert_check p)"

definition run_request :: "plugin \<Rightarrow> request" where
  "run_request p = SendGet (GET_TESTRUN_URL (testrun_id p)) (cert_check p)"

text \<open>The plan is asked for first, and only when a plan identifier is configured.\<close>

definition plan_selected :: "env \<Rightarrow> plugin \<Rightarrow> bool" where
  "plan_selected e p = (testplan_id p \<noteq> 0 \<and> confirmed_open (client e (sent p) (plan_request p)))"

definition plan_rejected :: "env \<Rightarrow> plugin \<Rightarrow> bool" where
  "plan_rejected e p = (testplan_id p = 0 \<or> not_open (client e (sent p) (plan_request p)))"

definition after_plan :: "plugin \<Rightarrow> request list" where
  "after_plan p = (if testplan_id p \<noteq> 0 then sent p @ [plan_request p] else sent p)"

definition run_selected :: "env \<Rightarrow> plugin \<Rightarrow> bool" where
  "run_selected e p = (testrun_id p \<noteq> 0 \<and> confirmed_open (client e (after_plan p) (run_request p)))"

definition run_rejected :: "env \<Rightarrow> plugin \<Rightarrow> bool" where
  "run_rejected e p = (testrun_id p = 0 \<or> not_open (client e (after_plan p) (run_request p)))"

definition after_run :: "plugin \<Rightarrow> request list" where
  "after_run p = (if testrun_id p \<noteq> 0 then after_plan p @ [run_request p] else after_plan p)"

text \<open>The request that creates a run for the given case identifiers.\<close>

definition run_creation :: "env \<Rightarrow> plugin \<Rightarrow> int list \<Rightarrow> request" where
  "run_creation e p keys =
     SendPost (ADD_TESTRUN_URL (project_id p))
       (RunData \<lparr> rd_suite_id = suite_id p,
                  rd_name = (case testrun_name p of None \<Rightarrow> testrun_name_now e | Some n \<Rightarrow> n),
                  rd_assignedto_id = assign_user_id p, rd_include_all = False,
                  rd_case_ids = keys, rd_milestone_id = milestone_id p \<rparr>)
       (cert_check p)"

text \<open>
  The case identifiers declared by the collected tests, one test after the other, when
  every declared string ends in a digit.
\<close>

definition well_formed :: "string list option list \<Rightarrow> bool" where
  "well_formed items =
     list_all (\<lambda>it. case it of None \<Rightarrow> True | Some ids \<Rightarrow> list_all (\<lambda>s. trailing_digits s \<noteq> []) ids)
       items"

definition declared_ids :: "string list option list \<Rightarrow> int list" where
  "declared_ids items =
     concat (map (\<lambda>it. case it of None \<Rightarrow> []
                          | Some ids \<Rightarrow> map (\<lambda>s. int_of_digits (trailing_digits s)) ids) items)"

text \<open>At most one of the two identifiers is set.\<close>

definition at_most_one_target :: "plugin \<Rightarrow> bool" where
  "at_most_one_target p = (testrun_id p = 0 \<or> testplan_id p = 0)"

section \<open>Case identifiers\<close>

lemma match_here_digits:
  "ds \<noteq> [] \<Longrightarrow> \<forall>c\<in>set ds. is_digit c \<Longrightarrow> match_here ds = Some ds"
  by (simp add: match_here_def Let_def takeWhile_eq_all_conv[THEN iffD2] dropWhile_eq_Nil_conv[THEN iffD2])

lemma not_digit_newline: "\<not> is_digit newline"
  by (simp add: is_digit_def newline_def)

lemma match_here_digits_nl:
  "ds \<noteq> [] \<Longrightarrow> \<forall>c\<in>set ds. is_digit c \<Longrightarrow> match_here (ds @ [newline]) = Some ds"
  by (simp add: match_here_def Let_def not_digit_newline)

lemma match_here_nondigit_inside:
  assumes "\<exists>c\<in>set pre. \<not> is_digit c" "t \<noteq> []"
  shows "match_here (pre @ t) = None"
proof -
  from assms(1) have d: "dropWhile is_digit (pre @ t) = dropWhile is_digit pre @ t"
    by (auto simp: dropWhile_append1)
  from assms(1) have n: "dropWhile is_digit pre \<noteq> []"
    by (auto simp: dropWhile_eq_Nil_conv)
  have "dropWhile is_digit (pre @ t) \<noteq> [] \<and> dropWhile is_digit (pre @ t) \<noteq> [newline]"
    unfolding d using n assms(2) by (cases "dropWhile is_digit pre"; cases t) auto
  then show ?thesis by (simp add: match_here_def Let_def)
qed

lemma re_search_skip_prefix:
  "t \<noteq> [] \<Longrightarrow> pre = [] \<or> \<not> is_digit (last pre) \<Longrightarrow> re_search (pre @ t) = re_search t"
proof (induction pre)
  case Nil
  then show ?case by simp
next
  case (Cons a pre)
  from Cons.prems(2) have "\<exists>c\<in>set (a # pre). \<not> is_digit c"
    by (metis last_in_set list.distinct(1))
  then have "match_here ((a # pre) @ t) = None"
    using Cons.prems(1) by (rule match_here_nondigit_inside)
  moreover have "pre = [] \<or> \<not> is_digit (last pre)"
    using Cons.prems(2) by auto
  ultimately show ?case using Cons by simp
qed

lemma re_search_match_here: "match_here s = Some ds \<Longrightarrow> re_search s = Some ds"
  by (cases s) simp_all

lemma re_search_trailing:
  assumes "ds \<noteq> []" "\<forall>c\<in>set ds. is_digit c" "pre = [] \<or> \<not> is_digit (last pre)"
  shows "re_search (pre @ ds) = Some ds"
  using re_search_skip_prefix[OF assms(1,3)] re_search_match_here[OF match_here_digits[OF assms(1,2)]]
  by simp

lemma re_search_trailing_nl:
  assumes "ds \<noteq> []" "\<forall>c\<in>set ds. is_digit c" "pre = [] \<or> \<not> is_digit (last pre)"
  shows "re_search (pre @ ds @ [newline]) = Some ds"
  using re_search_skip_prefix[OF _ assms(3), of "ds @ [newline]"]
    re_search_match_here[OF match_here_digits_nl[OF assms(1,2)]]
  by simp

lemma match_here_SomeD:
  assumes "match_here t = Some ds"
  shows "ds \<noteq> [] \<and> (\<forall>c\<in>set ds. is_digit c) \<and> (t = ds \<or> t = ds @ [newline])"
proof -
  have split: "t = takeWhile is_digit t @ dropWhile is_digit t" by simp
  from assms have ds: "ds = takeWhile is_digit t" and ne: "ds \<noteq> []"
    and r: "dropWhile is_digit t = [] \<or> dropWhile is_digit t = [newline]"
    by (auto simp: match_here_def Let_def split: if_splits)
  have "\<forall>c\<in>set ds. is_digit c" unfolding ds by (auto dest: set_takeWhileD)
  moreover have "t = ds \<or> t = ds @ [newline]"
  proof (cases "dropWhile is_digit t = []")
    case True
    then have "t = takeWhile is_digit t" by (metis append_Nil2 takeWhile_dropWhile_id)
    then show ?thesis unfolding ds by simp
  next
    case False
    with r have "dropWhile is_digit t = [newline]" by blast
    then have "t = takeWhile is_digit t @ [newline]"
      by (metis takeWhile_dropWhile_id)
    then show ?thesis unfolding ds by simp
  qed
  ultimately show ?thesis using ne by simp
qed

lemma re_search_SomeD:
  "re_search s = Some ds \<Longrightarrow>
     ds \<noteq> [] \<and> (\<forall>c\<in>set ds. is_digit c) \<and> (\<exists>pre. s = pre @ ds \<or> s = pre @ ds @ [newline])"
proof (induction s)
  case Nil
  then show ?case using match_here_SomeD[of "[]" ds] by auto
next
  case (Cons a s)
  show ?case
  proof (cases "match_here (a # s)")
    case None
    with Cons.prems have "re_search s = Some ds" by simp
    from Cons.IH[OF this] show ?thesis
      by (metis append_Cons)
  next
    case (Some x)
    with Cons.prems have "match_here (a # s) = Some ds" by simp
    from match_here_SomeD[OF this] show ?thesis
      by (metis append_Nil)
  qed
qed

lemma trailing_digits_split:
  "s = rev (dropWhile is_digit (rev s)) @ trailing_digits s"
  unfolding trailing_digits_def
  by (metis rev_append rev_rev_ident takeWhile_dropWhile_id)

lemma trailing_digits_all: "\<forall>c\<in>set (trailing_digits s). is_digit c"
  unfolding trailing_digits_def by (auto dest: set_takeWhileD)

lemma trailing_digits_prefix:
  "rev (dropWhile is_digit (rev s)) = [] \<or> \<not> is_digit (last (rev (dropWhile is_digit (rev s))))"
  by (cases "dropWhile is_digit (rev s) = []") (simp_all add: last_rev hd_dropWhile)

lemma trailing_digits_Nil_iff: "trailing_digits s = [] \<longleftrightarrow> s = [] \<or> \<not> is_digit (last s)"
  unfolding trailing_digits_def by (cases s rule: rev_cases) auto

lemma re_search_trailing_digits:
  assumes "trailing_digits s \<noteq> []"
  shows "re_search s = Some (trailing_digits s)"
proof -
  have "re_search (rev (dropWhile is_digit (rev s)) @ trailing_digits s) = Some (trailing_digits s)"
    using assms trailing_digits_all trailing_digits_prefix by (rule re_search_trailing)
  then show ?thesis using trailing_digits_split[of s] by simp
qed

lemma re_search_trailing_digits_nl:
  assumes "trailing_digits s \<noteq> []"
  shows "re_search (s @ [newline]) = Some (trailing_digits s)"
proof -
  have "re_search (rev (dropWhile is_digit (rev s)) @ trailing_digits s @ [newline])
          = Some (trailing_digits s)"
    using assms trailing_digits_all trailing_digits_prefix by (rule re_search_trailing_nl)
  moreover have "rev (dropWhile is_digit (rev s)) @ trailing_digits s @ [newline] = s @ [newline]"
    by (simp only: append_assoc[symmetric] trailing_digits_split[symmetric])
  ultimately show ?thesis by simp
qed

lemma re_search_None:
  assumes "no_digits_at_end s"
  shows "re_search s = None"
proof (rule ccontr)
  assume "re_search s \<noteq> None"
  then obtain ds where "re_search s = Some ds" by auto
  from re_search_SomeD[OF this] obtain pre where ne: "ds \<noteq> []" and dg: "\<forall>c\<in>set ds. is_digit c"
    and sh: "s = pre @ ds \<or> s = pre @ ds @ [newline]" by auto
  have td: "trailing_digits (pre @ ds) \<noteq> []"
    using ne dg by (simp add: trailing_digits_Nil_iff)
  from sh show False
  proof
    assume "s = pre @ ds" with td assms show False by (simp add: no_digits_at_end_def)
  next
    assume "s = pre @ ds @ [newline]"
    then have "s \<noteq> []" "last s = newline" "butlast s = pre @ ds"
      by (simp_all add: butlast_append)
    with td assms show False by (simp add: no_digits_at_end_def)
  qed
qed


lemma trailing_digits_append:
  assumes "\<forall>c\<in>set ds. is_digit c" "pre = [] \<or> \<not> is_digit (last pre)"
  shows "trailing_digits (pre @ ds) = ds"
proof (cases "pre = []")
  case True
  with assms(1) show ?thesis
    by (simp add: trailing_digits_def takeWhile_eq_all_conv[THEN iffD2])
next
  case False
  with assms(2) have "\<not> is_digit (hd (rev pre))" by (simp add: hd_rev)
  with False have "takeWhile is_digit (rev pre) = []" by (cases "rev pre") auto
  moreover have "takeWhile is_digit (rev ds @ rev pre) = rev ds @ takeWhile is_digit (rev pre)"
    using assms(1) by (intro takeWhile_append2) simp
  ultimately show ?thesis by (simp add: trailing_digits_def)
qed

lemma clean_test_id_Inl: "clean_test_id s = Inl err \<Longrightarrow> err = AttributeError"
  by (auto simp: clean_test_id_def split: option.splits)

lemma clean_test_ids_Inl: "clean_test_ids ids = Inl err \<Longrightarrow> err = AttributeError"
  by (induction ids arbitrary: err) (auto split: sum.splits dest: clean_test_id_Inl)

lemma clean_test_id_digits:
  "trailing_digits s \<noteq> [] \<Longrightarrow> clean_test_id s = Inr (int_of_digits (trailing_digits s))"
  by (simp add: clean_test_id_def re_search_trailing_digits)

lemma clean_test_id_none: "no_digits_at_end s \<Longrightarrow> clean_test_id s = Inl AttributeError"
  by (simp add: clean_test_id_def re_search_None)

lemma clean_test_ids_all:
  "\<forall>s\<in>set ids. trailing_digits s \<noteq> [] \<Longrightarrow>
     clean_test_ids ids = Inr (map (\<lambda>s. int_of_digits (trailing_digits s)) ids)"
  by (induction ids) (simp_all add: clean_test_id_digits)

lemma clean_test_ids_some_bad:
  "\<exists>s\<in>set ids. no_digits_at_end s \<Longrightarrow> clean_test_ids ids = Inl AttributeError"
proof (induction ids)
  case Nil
  then show ?case by simp
next
  case (Cons t ts)
  show ?case
  proof (cases "clean_test_id t")
    case (Inl err)
    then show ?thesis using clean_test_id_Inl[OF Inl] by simp
  next
    case (Inr n)
    then have "\<not> no_digits_at_end t" using clean_test_id_none[of t] by auto
    with Cons.prems have "\<exists>s\<in>set ts. no_digits_at_end s" by auto
    then have "clean_test_ids ts = Inl AttributeError" by (rule Cons.IH)
    with Inr show ?thesis by simp
  qed
qed

lemma digit_char_value: "d < 10 \<Longrightarrow> of_char (digit_char d) = 48 + d"
  by (simp add: digit_char_def)

lemma int_of_digits_snoc:
  "int_of_digits (ds @ [c]) = 10 * int_of_digits ds + (int (of_char c) - 48)"
  by (simp add: int_of_digits_def)

lemma int_of_digits_str_nat: "int_of_digits (str_nat n) = int n"
proof (induction n rule: str_nat.induct)
  case (1 n)
  show ?case
  proof (cases "n < 10")
    case True
    then show ?thesis
      by (subst str_nat.simps) (simp add: int_of_digits_def digit_char_value)
  next
    case False
    then have "int_of_digits (str_nat n) =
        10 * int_of_digits (str_nat (n div 10)) + (int (of_char (digit_char (n mod 10))) - 48)"
      by (subst str_nat.simps) (simp add: int_of_digits_snoc)
    also have "\<dots> = 10 * int (n div 10) + int (n mod 10)"
      using "1.IH"[OF False] by (simp add: digit_char_value)
    also have "\<dots> = int n" by presburger
    finally show ?thesis .
  qed
qed

text \<open>
  Claim C9 says that a string with no trailing decimal digit is rejected. The string
  \<^verbatim>\<open>C12\<close> followed by a newline does not end in a digit, and is read as 12.
\<close>

theorem clean_test_ids_newline_counterexample:
  "\<not> is_digit (last (''C12'' @ [newline]))
   \<and> clean_test_ids [''C12'' @ [newline]] = Inr [12]"
  by (simp add: clean_test_id_def match_here_def is_digit_def newline_def int_of_digits_def)

text \<open>
  Claim C9, as the code has it. When every string of the list ends in a decimal digit,
  \<open>clean_test_ids\<close> returns, for each string, the integer written by its longest
  trailing run of digits. When some string has no digit at its end, nor before a
  newline that ends it, \<open>clean_test_ids\<close> raises AttributeError, and
  \<open>pytest_runtest_makereport\<close> passes the error on and leaves the plugin as it was, so
  no record is added. A string whose digits are followed by one final newline is read as
  those digits: the \<^verbatim>\<open>$\<close> of the pattern matches before a final newline.
\<close>

theorem clean_test_ids_spec:
  "((\<forall>s\<in>set ids. trailing_digits s \<noteq> []) \<longrightarrow>
      clean_test_ids ids = Inr (map (\<lambda>s. int_of_digits (trailing_digits s)) ids))
   \<and> ((\<exists>s\<in>set ids. no_digits_at_end s) \<longrightarrow>
      clean_test_ids ids = Inl AttributeError
      \<and> pytest_runtest_makereport p (Some ids) ''call'' outcome longrepr dur
            = (Some AttributeError, p))
   \<and> (\<forall>t. trailing_digits t \<noteq> [] \<longrightarrow>
        clean_test_id (t @ [newline]) = Inr (int_of_digits (trailing_digits t)))"
  using clean_test_ids_all[of ids] clean_test_ids_some_bad[of ids]
  by (auto simp: pytest_runtest_makereport_def clean_test_id_def re_search_trailing_digits_nl)

theorem clean_test_ids_spec_witness:
  "clean_test_ids [''C123'', ''C12345''] = Inr [123, 12345]
   \<and> clean_test_ids [''C123'', ''abc''] = Inl AttributeError
   \<and> clean_test_id (''C7'' @ [newline]) = Inr 7"
proof -
  have a: "\<forall>s\<in>set [''C123'', ''C12345'']. trailing_digits s \<noteq> []"
    by (simp add: trailing_digits_def is_digit_def)
  have b: "\<exists>s\<in>set [''C123'', ''abc'']. no_digits_at_end s"
    by (simp add: no_digits_at_end_def trailing_digits_def is_digit_def newline_def)
  have c: "trailing_digits ''C7'' \<noteq> []"
    by (simp add: trailing_digits_def is_digit_def)
  have d: "int_of_digits (trailing_digits ''C123'') = 123"
     "int_of_digits (trailing_digits ''C12345'') = 12345"
     "int_of_digits (trailing_digits ''C7'') = 7"
    by (simp_all add: trailing_digits_def is_digit_def int_of_digits_def)
  note t = clean_test_ids_spec
  have "clean_test_ids [''C123'', ''C12345''] = Inr [123, 12345]"
    using mp[OF t[of "[''C123'', ''C12345'']", THEN conjunct1] a] d by simp
  moreover have "clean_test_ids [''C123'', ''abc''] = Inl AttributeError"
    using mp[OF t[of "[''C123'', ''abc'']", THEN conjunct2, THEN conjunct1] b] by (rule conjunct1)
  moreover have "clean_test_id (''C7'' @ [newline]) = Inr 7"
    using mp[OF t[THEN conjunct2, THEN conjunct2, THEN spec, of "''C7''"] c] d by simp
  ultimately show ?thesis by simp
qed

section \<open>Sorting and submitting the results\<close>

lemma insort_key_keeps_order:
  assumes "sorted_wrt (\<lambda>a b. f a \<le> f b \<and> (f a = f b \<longrightarrow> R a b)) ys" "\<forall>y\<in>set ys. R x y"
  shows "sorted_wrt (\<lambda>a b. f a \<le> f b \<and> (f a = f b \<longrightarrow> R a b)) (insort_key f x ys)"
  using assms
proof (induction ys)
  case Nil
  then show ?case by simp
next
  case (Cons y ys)
  show ?case
  proof (cases "f x \<le> f y")
    case True
    with Cons.prems show ?thesis by (auto intro: order_trans)
  next
    case False
    with Cons show ?thesis by (auto simp: set_insort_key)
  qed
qed

lemma sort_key_keeps_order:
  fixes f :: "'a \<Rightarrow> 'k::linorder"
  assumes "sorted_wrt R xs"
  shows "sorted_wrt (\<lambda>a b. f a \<le> f b \<and> (f a = f b \<longrightarrow> R a b)) (sort_key f xs)"
  using assms
proof (induction xs)
  case Nil
  then show ?case by simp
next
  case (Cons x xs)
  then have "sorted_wrt (\<lambda>a b. f a \<le> f b \<and> (f a = f b \<longrightarrow> R a b)) (sort_key f xs)" by simp
  moreover have "\<forall>y\<in>set (sort_key f xs). R x y" using Cons.prems by simp
  ultimately show ?case by (simp add: insort_key_keeps_order)
qed

lemma sorted_wrt_status: "sorted_wrt (\<lambda>a b. status_id a \<le> status_id b) (sort_key status_id rs)"
  using sorted_sort_key[of status_id rs] by (simp add: sorted_map)

lemma sort_results_order:
  "sorted_wrt (\<lambda>a b. case_id a \<le> case_id b \<and> (case_id a = case_id b \<longrightarrow> status_id a \<le> status_id b))
     (sort_results rs)"
  unfolding sort_results_def by (rule sort_key_keeps_order[OF sorted_wrt_status])

lemma mset_sort_results: "mset (sort_results rs) = mset rs"
  by (simp add: sort_results_def)


lemma publish_one_frame: "\<exists>s l. publish_one e run p r = p\<lparr>sent := s, printed := l\<rparr>"
proof (cases "suppressed p (result_payload e p r)")
  case True
  then have "publish_one e run p r = p\<lparr>sent := sent p, printed := printed p\<rparr>"
    by (simp add: publish_one_def)
  then show ?thesis by blast
next
  case False
  show ?thesis
  proof (cases "is_error (r_error (client e (sent p) (result_request e p run r)))")
    case True
    with False have "publish_one e run p r = p\<lparr>sent := sent p @ [result_request e p run r],
        printed := printed p @ [not_published (case_id r)
            (r_error (client e (sent p) (result_request e p run r)))]\<rparr>"
      by (simp add: publish_one_def send_def print_line_def)
    then show ?thesis by blast
  next
    case F2: False
    with False have "publish_one e run p r = p\<lparr>sent := sent p @ [result_request e p run r],
        printed := printed p\<rparr>"
      by (simp add: publish_one_def send_def print_line_def)
    then show ?thesis by blast
  qed
qed

lemma publish_all_frame: "\<exists>s l. publish_all e run p rs = p\<lparr>sent := s, printed := l\<rparr>"
proof (induction rs arbitrary: p)
  case Nil
  have "publish_all e run p [] = p\<lparr>sent := sent p, printed := printed p\<rparr>" by simp
  then show ?case by blast
next
  case (Cons r rs)
  obtain s l where 1: "publish_one e run p r = p\<lparr>sent := s, printed := l\<rparr>"
    using publish_one_frame by blast
  obtain s' l' where 2: "publish_all e run (publish_one e run p r) rs
      = (publish_one e run p r)\<lparr>sent := s', printed := l'\<rparr>"
    using Cons.IH by blast
  have "publish_all e run p (r # rs) = p\<lparr>sent := s', printed := l'\<rparr>"
    using 2 by (simp add: 1)
  then show ?case by blast
qed

lemma result_payload_cong:
  "version p = version q \<Longrightarrow> result_payload e p r = result_payload e q r"
  by (simp add: result_payload_def)

lemma result_request_cong:
  "version p = version q \<Longrightarrow> cert_check p = cert_check q \<Longrightarrow>
     result_request e p run r = result_request e q run r"
  by (simp add: result_request_def result_payload_def)

lemma suppressed_cong: "add_skips p = add_skips q \<Longrightarrow> suppressed p d = suppressed q d"
  by (simp add: suppressed_def)

lemma publish_one_sent:
  "sent (publish_one e run p r) =
     sent p @ (if suppressed p (result_payload e p r) then [] else [result_request e p run r])"
  by (simp add: publish_one_def send_def print_line_def)

lemma publish_one_fields:
  "results (publish_one e run p r) = results p"
  "version (publish_one e run p r) = version p"
  "cert_check (publish_one e run p r) = cert_check p"
  "add_skips (publish_one e run p r) = add_skips p"
  "testrun_id (publish_one e run p r) = testrun_id p"
  "testplan_id (publish_one e run p r) = testplan_id p"
proof -
  obtain s l where 1: "publish_one e run p r = p\<lparr>sent := s, printed := l\<rparr>"
    using publish_one_frame by blast
  show "results (publish_one e run p r) = results p"
    "version (publish_one e run p r) = version p"
    "cert_check (publish_one e run p r) = cert_check p"
    "add_skips (publish_one e run p r) = add_skips p"
    "testrun_id (publish_one e run p r) = testrun_id p"
    "testplan_id (publish_one e run p r) = testplan_id p"
    by (simp_all add: 1)
qed

lemma publish_all_fields:
  "results (publish_all e run p rs) = results p"
  "version (publish_all e run p rs) = version p"
  "cert_check (publish_all e run p rs) = cert_check p"
  "add_skips (publish_all e run p rs) = add_skips p"
  "testrun_id (publish_all e run p rs) = testrun_id p"
  "testplan_id (publish_all e run p rs) = testplan_id p"
proof -
  obtain s l where 1: "publish_all e run p rs = p\<lparr>sent := s, printed := l\<rparr>"
    using publish_all_frame by blast
  show "results (publish_all e run p rs) = results p"
    "version (publish_all e run p rs) = version p"
    "cert_check (publish_all e run p rs) = cert_check p"
    "add_skips (publish_all e run p rs) = add_skips p"
    "testrun_id (publish_all e run p rs) = testrun_id p"
    "testplan_id (publish_all e run p rs) = testplan_id p"
    by (simp_all add: 1)
qed

text \<open>The records that \<open>add_results\<close> submits: all but the suppressed ones.\<close>

lemma publish_all_sent:
  "sent (publish_all e run p rs) =
     sent p @ map (result_request e p run)
                (filter (\<lambda>r. \<not> suppressed p (result_payload e p r)) rs)"
proof (induction rs arbitrary: p)
  case Nil
  then show ?case by simp
next
  case (Cons r rs)
  let ?q = "publish_one e run p r"
  have rq: "result_request e ?q run = result_request e p run"
    by (rule ext) (simp add: result_request_cong[of ?q p] publish_one_fields)
  have sp: "(\<lambda>r. \<not> suppressed ?q (result_payload e ?q r)) = (\<lambda>r. \<not> suppressed p (result_payload e p r))"
    by (rule ext)
      (simp add: suppressed_cong[of ?q p] result_payload_cong[of ?q p] publish_one_fields)
  show ?case
    by (simp add: Cons.IH rq sp publish_one_sent)
qed

lemma add_results_results: "results (add_results e p run) = sort_results (results p)"
  by (simp add: add_results_def Let_def publish_all_fields)


lemma sorted_wrt_last:
  "sorted_wrt P xs \<Longrightarrow> x \<in> set xs \<Longrightarrow> x = last xs \<or> P x (last xs)"
  by (induction xs) auto

lemma last_of_case_is_worst:
  assumes "r \<in> set (sort_results rs)"
  shows "status_id r \<le> status_id (last (filter (\<lambda>x. case_id x = case_id r) (sort_results rs)))"
proof -
  let ?fs = "filter (\<lambda>x. case_id x = case_id r) (sort_results rs)"
  let ?Q = "\<lambda>a b. case_id a \<le> case_id b \<and> (case_id a = case_id b \<longrightarrow> status_id a \<le> status_id b)"
  have "sorted_wrt ?Q ?fs" by (rule sorted_wrt_filter[OF sort_results_order])
  moreover have r: "r \<in> set ?fs" using assms by simp
  ultimately have "r = last ?fs \<or> ?Q r (last ?fs)" by (rule sorted_wrt_last)
  moreover have "?fs \<noteq> []" using r by (metis empty_iff empty_set)
  then have "last ?fs \<in> set ?fs" by (rule last_in_set)
  then have "case_id (last ?fs) = case_id r" by simp
  ultimately show ?thesis by auto
qed

text \<open>
  Claim C4. \<open>add_results\<close> leaves in \<open>results\<close> the list sorted by the two passes.
  For every list of result records, the sorted list is a permutation of the input, it is
  non-decreasing in \<open>case_id\<close>, any two of its records with the same \<open>case_id\<close> are in
  non-decreasing order of \<open>status_id\<close>, and so the last record of a case has the highest
  status of that case.
\<close>

theorem add_results_sorts:
  "results (add_results e p run) = sort_results (results p)
   \<and> mset (sort_results rs) = mset rs
   \<and> sorted (map case_id (sort_results rs))
   \<and> sorted_wrt (\<lambda>a b. case_id a = case_id b \<longrightarrow> status_id a \<le> status_id b) (sort_results rs)
   \<and> (\<forall>r\<in>set (sort_results rs).
         status_id r \<le> status_id (last (filter (\<lambda>x. case_id x = case_id r) (sort_results rs))))"
proof -
  have "sorted_wrt (\<lambda>a b. case_id a \<le> case_id b) (sort_results rs)"
    by (rule sorted_wrt_mono_rel[OF _ sort_results_order]) simp
  then have "sorted (map case_id (sort_results rs))" by (simp add: sorted_map)
  moreover have "sorted_wrt (\<lambda>a b. case_id a = case_id b \<longrightarrow> status_id a \<le> status_id b) (sort_results rs)"
    by (rule sorted_wrt_mono_rel[OF _ sort_results_order]) simp
  ultimately show ?thesis
    by (simp add: add_results_results mset_sort_results last_of_case_is_worst)
qed

theorem add_results_sorts_witness:
  "sort_results
     [\<lparr>case_id = 2, status_id = 5, comment = PyNone, duration = 0\<rparr>,
      \<lparr>case_id = 1, status_id = 2, comment = PyNone, duration = 0\<rparr>,
      \<lparr>case_id = 2, status_id = 1, comment = PyNone, duration = 0\<rparr>,
      \<lparr>case_id = 1, status_id = 1, comment = PyNone, duration = 0\<rparr>]
   = [\<lparr>case_id = 1, status_id = 1, comment = PyNone, duration = 0\<rparr>,
      \<lparr>case_id = 1, status_id = 2, comment = PyNone, duration = 0\<rparr>,
      \<lparr>case_id = 2, status_id = 1, comment = PyNone, duration = 0\<rparr>,
      \<lparr>case_id = 2, status_id = 5, comment = PyNone, duration = 0\<rparr>]
   \<and> sorted_wrt (\<lambda>a b. case_id a = case_id b \<longrightarrow> status_id a \<le> status_id b)
       (sort_results
         [\<lparr>case_id = 2, status_id = 5, comment = PyNone, duration = 0\<rparr>,
          \<lparr>case_id = 1, status_id = 2, comment = PyNone, duration = 0\<rparr>,
          \<lparr>case_id = 2, status_id = 1, comment = PyNone, duration = 0\<rparr>,
          \<lparr>case_id = 1, status_id = 1, comment = PyNone, duration = 0\<rparr>])"
  using add_results_sorts[of _ _ _
     "[\<lparr>case_id = 2, status_id = 5, comment = PyNone, duration = 0\<rparr>,
      \<lparr>case_id = 1, status_id = 2, comment = PyNone, duration = 0\<rparr>,
      \<lparr>case_id = 2, status_id = 1, comment = PyNone, duration = 0\<rparr>,
      \<lparr>case_id = 1, status_id = 1, comment = PyNone, duration = 0\<rparr>]"]
  by (simp add: sort_results_def)

text \<open>A record is submitted unless it is a skipped one and \<open>add_skips\<close> is off.\<close>

lemma suppressed_iff:
  "suppressed p (result_payload e p r) \<longleftrightarrow> \<not> add_skips p \<and> status_id r = 2"
  by (auto simp: suppressed_def result_payload_def PYTEST_TO_TESTRAIL_STATUS_def)

lemma add_results_sent:
  "sent (add_results e p run) =
     sent p @ map (result_request e p run)
                (filter (\<lambda>r. add_skips p \<or> status_id r \<noteq> 2) (sort_results (results p)))"
proof -
  let ?q = "p\<lparr>results := sort_results (results p)\<rparr>"
  have rq: "result_request e ?q run = result_request e p run"
    by (rule ext) (simp add: result_request_cong[of ?q p])
  have "sent (add_results e p run) =
      sent ?q @ map (result_request e ?q run)
                (filter (\<lambda>r. \<not> suppressed ?q (result_payload e ?q r)) (results ?q))"
    by (simp add: add_results_def Let_def publish_all_sent)
  then show ?thesis by (simp add: rq suppressed_iff)
qed

lemma add_results_fields:
  "version (add_results e p run) = version p"
  "cert_check (add_results e p run) = cert_check p"
  "add_skips (add_results e p run) = add_skips p"
  "testrun_id (add_results e p run) = testrun_id p"
  "testplan_id (add_results e p run) = testplan_id p"
  by (simp_all add: add_results_def Let_def publish_all_fields)

lemma sorted_status_within_case:
  "sorted (map status_id (filter (\<lambda>x. case_id x = c) (sort_results rs)))"
proof -
  let ?Q = "\<lambda>a b. case_id a \<le> case_id b \<and> (case_id a = case_id b \<longrightarrow> status_id a \<le> status_id b)"
  let ?fs = "filter (\<lambda>x. case_id x = c) (sort_results rs)"
  have "sorted_wrt ?Q ?fs" by (rule sorted_wrt_filter[OF sort_results_order])
  then have "sorted_wrt (\<lambda>a b. status_id a \<le> status_id b) ?fs"
    by (rule sorted_wrt_mono_rel[rotated]) auto
  then show ?thesis by (simp add: sorted_map)
qed

lemma sort_results_idem: "sort_results (sort_results rs) = sort_results rs"
proof -
  let ?ys = "sort_results rs"
  let ?zs = "sort_key status_id ?ys"
  have "sort_key case_id ?zs = ?ys"
  proof (rule properties_for_sort_key)
    show "mset ?ys = mset ?zs" by simp
    show "sorted (map case_id ?ys)" by (simp add: sort_results_def)
    show "\<And>k. k \<in> set ?ys \<Longrightarrow>
        filter (\<lambda>x. case_id k = case_id x) ?ys = filter (\<lambda>x. case_id k = case_id x) ?zs"
    proof -
      fix k
      have "filter (\<lambda>x. case_id x = case_id k) ?zs
          = sort_key status_id (filter (\<lambda>x. case_id x = case_id k) ?ys)"
        by (rule filter_sort)
      also have "\<dots> = filter (\<lambda>x. case_id x = case_id k) ?ys"
        by (rule sort_key_id_if_sorted[OF sorted_status_within_case])
      finally show "filter (\<lambda>x. case_id k = case_id x) ?ys = filter (\<lambda>x. case_id k = case_id x) ?zs"
        by (simp add: eq_commute)
    qed
  qed
  then show ?thesis by (simp add: sort_results_def[of ?ys])
qed

lemma add_results_to_runs_fields:
  "version (add_results_to_runs e p runs) = version p"
  "cert_check (add_results_to_runs e p runs) = cert_check p"
  "add_skips (add_results_to_runs e p runs) = add_skips p"
  "testrun_id (add_results_to_runs e p runs) = testrun_id p"
  "testplan_id (add_results_to_runs e p runs) = testplan_id p"
  by (induction runs arbitrary: p) (simp_all add: add_results_fields)

lemma add_results_to_runs_results:
  "results (add_results_to_runs e p runs) = (if runs = [] then results p else sort_results (results p))"
  by (induction runs arbitrary: p) (simp_all add: add_results_results sort_results_idem)

lemma add_results_to_runs_sent:
  "sent (add_results_to_runs e p runs) =
     sent p @ concat (map (\<lambda>run. map (result_request e p run)
                (filter (\<lambda>r. add_skips p \<or> status_id r \<noteq> 2) (sort_results (results p)))) runs)"
proof (induction runs arbitrary: p)
  case Nil
  then show ?case by simp
next
  case (Cons run runs)
  let ?q = "add_results e p run"
  have rq: "\<And>x. result_request e ?q x = result_request e p x"
    by (rule ext) (simp add: result_request_cong[of ?q p] add_results_fields)
  show ?case
    by (simp add: Cons.IH add_results_sent add_results_results sort_results_idem rq
        add_results_fields)
qed

text \<open>
  Claim C5. For a record whose status is the skipped one (2), the body of the loop of
  \<open>add_results\<close> makes no call of the client when \<open>add_skips\<close> is False and exactly one
  call when it is True; over the whole batch, the calls are the submissions of the sorted
  records, without the skipped ones when \<open>add_skips\<close> is False.
\<close>

theorem skipped_record_calls:
  "(status_id r = 2 \<and> add_skips p = False \<longrightarrow> sent (publish_one e run p r) = sent p)
   \<and> (status_id r = 2 \<and> add_skips p = True \<longrightarrow>
        sent (publish_one e run p r) = sent p @ [result_request e p run r])
   \<and> sent (add_results e p run) =
        sent p @ map (result_request e p run)
                   (filter (\<lambda>r. add_skips p \<or> status_id r \<noteq> 2) (sort_results (results p)))"
  by (simp add: publish_one_sent suppressed_iff add_results_sent)

theorem skipped_record_calls_witness:
  "sent (publish_one accepting 100 (PyTestRailPlugin 1 2 3 True None 100 0 [] False 0 True)
           \<lparr>case_id = 7, status_id = 2, comment = PyNone, duration = 0\<rparr>) = []
   \<and> sent (publish_one accepting 100 (PyTestRailPlugin 1 2 3 True None 100 0 [] True 0 True)
           \<lparr>case_id = 7, status_id = 2, comment = PyNone, duration = 0\<rparr>)
       = [SendPost (ADD_RESULT_URL 100 7)
            (ResultData \<lparr>d_status_id = 2, d_version = None, d_comment = None, d_elapsed = None\<rparr>)
            True]"
  using skipped_record_calls[of "\<lparr>case_id = 7, status_id = 2, comment = PyNone, duration = 0\<rparr>"
      "PyTestRailPlugin 1 2 3 True None 100 0 [] False 0 True" accepting 100]
    skipped_record_calls[of "\<lparr>case_id = 7, status_id = 2, comment = PyNone, duration = 0\<rparr>"
      "PyTestRailPlugin 1 2 3 True None 100 0 [] True 0 True" accepting 100]
  by (simp add: PyTestRailPlugin_def result_request_def result_payload_def)

lemma publish_one_error:
  assumes "\<not> suppressed p (result_payload e p r)"
    "is_error (r_error (client e (sent p) (result_request e p run r)))"
  shows "publish_one e run p r =
     p\<lparr>sent := sent p @ [result_request e p run r],
       printed := printed p @ [not_published (case_id r)
          (r_error (client e (sent p) (result_request e p run r)))]\<rparr>"
  using assms by (simp add: publish_one_def send_def print_line_def)

lemma publish_all_Cons_sent:
  "sent (publish_all e run p (r # rs)) =
     sent (publish_one e run p r)
     @ map (result_request e p run) (filter (\<lambda>x. add_skips p \<or> status_id x \<noteq> 2) rs)"
proof -
  let ?q = "publish_one e run p r"
  have rq: "result_request e ?q run = result_request e p run"
    by (rule ext) (simp add: result_request_cong[of ?q p] publish_one_fields)
  have "sent (publish_all e run ?q rs) =
      sent ?q @ map (result_request e ?q run)
                  (filter (\<lambda>x. \<not> suppressed ?q (result_payload e ?q x)) rs)"
    by (rule publish_all_sent)
  then show ?thesis by (simp add: rq suppressed_iff publish_one_fields)
qed

lemma sessionfinish_run:
  assumes "testrun_id p \<noteq> 0"
  shows "fst (pytest_sessionfinish e p) = None"
  using assms by (simp add: pytest_sessionfinish_def Let_def print_line_def)

text \<open>
  Claim C10. \<open>add_results\<close> only reorders \<open>results\<close>: the multiset of records after the
  call is the multiset before it, and a second call leaves the list as the first left it.
  When the results are submitted to several runs one after the other, as
  \<open>pytest_sessionfinish\<close> does for the open runs of a plan, every run receives the
  submissions of the same sorted list of records, built from the records as they were.
\<close>

theorem add_results_keeps_records:
  "mset (results (add_results e p run)) = mset (results p)
   \<and> results (add_results e (add_results e p run) run') = results (add_results e p run)
   \<and> sent (add_results_to_runs e p runs) =
        sent p @ concat (map (\<lambda>run. map (result_request e p run)
                   (filter (\<lambda>r. add_skips p \<or> status_id r \<noteq> 2) (sort_results (results p)))) runs)
   \<and> mset (results (add_results_to_runs e p runs)) = mset (results p)"
  by (simp add: add_results_results mset_sort_results sort_results_idem add_results_to_runs_sent
      add_results_to_runs_results)

theorem add_results_keeps_records_witness:
  "sent (add_results_to_runs accepting
           (add_result (PyTestRailPlugin 1 2 3 True None 0 9 [] True 0 True) [8, 7] 1 PyNone 0)
           [100, 101])
     = [SendPost (ADD_RESULT_URL 100 7)
          (ResultData \<lparr>d_status_id = 1, d_version = None, d_comment = None, d_elapsed = None\<rparr>)
          True,
        SendPost (ADD_RESULT_URL 100 8)
          (ResultData \<lparr>d_status_id = 1, d_version = None, d_comment = None, d_elapsed = None\<rparr>)
          True,
        SendPost (ADD_RESULT_URL 101 7)
          (ResultData \<lparr>d_status_id = 1, d_version = None, d_comment = None, d_elapsed = None\<rparr>)
          True,
        SendPost (ADD_RESULT_URL 101 8)
          (ResultData \<lparr>d_status_id = 1, d_version = None, d_comment = None, d_elapsed = None\<rparr>)
          True]"
  using add_results_keeps_records[of accepting
      "add_result (PyTestRailPlugin 1 2 3 True None 0 9 [] True 0 True) [8, 7] 1 PyNone 0" _ _
      "[100, 101]"]
  by (simp add: PyTestRailPlugin_def add_result_def sort_results_def result_request_def
      result_payload_def)

section \<open>The payload of one result\<close>





















lemma hd_join: "join sep ((c # l) # ls) = c # join sep (l # ls)"
  by (cases ls) simp_all










section \<open>The choice of the target during collection\<close>

lemma get_testrail_keys_declared:
  "well_formed items \<Longrightarrow> get_testrail_keys items = Inr (declared_ids items)"
proof (induction items)
  case Nil
  then show ?case by (simp add: declared_ids_def)
next
  case (Cons it items)
  then have ih: "get_testrail_keys items = Inr (declared_ids items)"
    by (simp add: well_formed_def)
  show ?case
  proof (cases it)
    case None
    with ih show ?thesis by (simp add: declared_ids_def)
  next
    case (Some ids)
    with Cons.prems have "\<forall>s\<in>set ids. trailing_digits s \<noteq> []"
      by (simp add: well_formed_def list_all_iff)
    then have "clean_test_ids ids = Inr (map (\<lambda>s. int_of_digits (trailing_digits s)) ids)"
      by (rule clean_test_ids_all)
    with Some ih show ?thesis by (simp add: declared_ids_def)
  qed
qed

lemma is_available_open:
  assumes "confirmed_open (client e (sent p) (SendGet url (cert_check p)))"
  shows "is_available e p url what = (Inr True, p\<lparr>sent := sent p @ [SendGet url (cert_check p)]\<rparr>)"
  using assms by (simp add: is_available_def send_def confirmed_open_def)

lemma is_available_not_open:
  assumes "not_open (client e (sent p) (SendGet url (cert_check p)))"
  shows "\<exists>l. is_available e p url what
     = (Inr False, p\<lparr>sent := sent p @ [SendGet url (cert_check p)], printed := l\<rparr>)"
proof (cases "is_error (r_error (client e (sent p) (SendGet url (cert_check p))))")
  case True
  then have "is_available e p url what
     = (Inr False, p\<lparr>sent := sent p @ [SendGet url (cert_check p)],
          printed := printed p @ [tag @ '' Failed to retrieve '' @ what @ '': \"''
             @ str_error (r_error (client e (sent p) (SendGet url (cert_check p)))) @ ''\"'']\<rparr>)"
    by (simp add: is_available_def send_def print_line_def)
  then show ?thesis by blast
next
  case False
  with assms have "is_available e p url what
     = (Inr False, p\<lparr>sent := sent p @ [SendGet url (cert_check p)], printed := printed p\<rparr>)"
    by (simp add: is_available_def send_def not_open_def)
  then show ?thesis by blast
qed

lemma plan_condition_selected:
  assumes "plan_selected e p"
  shows "plan_condition e p = (Inr True, p\<lparr>sent := sent p @ [plan_request p]\<rparr>)"
  using assms
  by (simp add: plan_condition_def plan_selected_def plan_request_def is_testplan_available_def
      is_available_open)

lemma plan_condition_rejected:
  assumes "plan_rejected e p"
  shows "\<exists>l. plan_condition e p = (Inr False, p\<lparr>sent := after_plan p, printed := l\<rparr>)"
proof (cases "testplan_id p = 0")
  case True
  then have "plan_condition e p = (Inr False, p\<lparr>sent := after_plan p, printed := printed p\<rparr>)"
    by (simp add: plan_condition_def after_plan_def)
  then show ?thesis by blast
next
  case False
  with assms have "not_open (client e (sent p) (SendGet (GET_TESTPLAN_URL (testplan_id p)) (cert_check p)))"
    by (simp add: plan_rejected_def plan_request_def)
  from is_available_not_open[OF this, of "''testplan''"] False show ?thesis
    by (simp add: plan_condition_def is_testplan_available_def after_plan_def plan_request_def)
qed


lemma run_condition_selected:
  assumes "testrun_id q \<noteq> 0" "confirmed_open (client e (sent q) (run_request q))"
  shows "run_condition e q = (Inr True, q\<lparr>sent := sent q @ [run_request q]\<rparr>)"
  using assms
  by (simp add: run_condition_def run_request_def is_testrun_available_def is_available_open)

lemma run_condition_rejected:
  assumes "testrun_id q = 0 \<or> not_open (client e (sent q) (run_request q))"
  shows "\<exists>l. run_condition e q
     = (Inr False, q\<lparr>sent := (if testrun_id q \<noteq> 0 then sent q @ [run_request q] else sent q),
                     printed := l\<rparr>)"
proof (cases "testrun_id q = 0")
  case True
  then have "run_condition e q
     = (Inr False, q\<lparr>sent := (if testrun_id q \<noteq> 0 then sent q @ [run_request q] else sent q),
                     printed := printed q\<rparr>)"
    by (simp add: run_condition_def)
  then show ?thesis by blast
next
  case False
  with assms have "not_open (client e (sent q) (SendGet (GET_TESTRUN_URL (testrun_id q)) (cert_check q)))"
    by (simp add: run_request_def)
  from is_available_not_open[OF this, of "''testrun''"] False show ?thesis
    by (simp add: run_condition_def is_testrun_available_def run_request_def)
qed

lemma create_test_run_sent:
  "sent (snd (create_test_run e q a pr su name keys m)) =
     sent q @ [SendPost (ADD_TESTRUN_URL pr)
        (RunData \<lparr> rd_suite_id = su, rd_name = name, rd_assignedto_id = a,
                   rd_include_all = False, rd_case_ids = keys, rd_milestone_id = m \<rparr>)
        (cert_check q)]"
  by (simp add: create_test_run_def send_def print_line_def Let_def split: option.splits)

lemma create_branch_sent:
  "sent (snd (create_branch e q keys)) = sent q @ [run_creation e q keys]"
  by (simp add: create_branch_def Let_def create_test_run_sent run_creation_def)

lemma collection_plan:
  assumes "get_testrail_keys items = Inr keys" "plan_selected e p"
  shows "pytest_collection_modifyitems e p items
     = (None, p\<lparr>sent := sent p @ [plan_request p], testrun_id := 0\<rparr>)"
  using assms(1) plan_condition_selected[OF assms(2)]
  by (simp add: pytest_collection_modifyitems_def)

lemma collection_run:
  assumes "get_testrail_keys items = Inr keys" "plan_rejected e p" "run_selected e p"
  shows "\<exists>l. pytest_collection_modifyitems e p items
     = (None, p\<lparr>sent := after_plan p @ [run_request p], printed := l, testplan_id := 0\<rparr>)"
proof -
  obtain l where pc: "plan_condition e p = (Inr False, p\<lparr>sent := after_plan p, printed := l\<rparr>)"
    using plan_condition_rejected[OF assms(2)] by blast
  let ?q = "p\<lparr>sent := after_plan p, printed := l\<rparr>"
  have rq: "run_request ?q = run_request p" by (simp add: run_request_def)
  have "run_condition e ?q = (Inr True, ?q\<lparr>sent := sent ?q @ [run_request ?q]\<rparr>)"
    using assms(3) by (intro run_condition_selected) (simp_all add: run_selected_def rq)
  then have "pytest_collection_modifyitems e p items
     = (None, p\<lparr>sent := after_plan p @ [run_request p], printed := l, testplan_id := 0\<rparr>)"
    using assms(1) pc
    by (simp add: pytest_collection_modifyitems_def rq)
  then show ?thesis by blast
qed

lemma collection_create:
  assumes "get_testrail_keys items = Inr keys" "plan_rejected e p" "run_rejected e p"
  shows "\<exists>l. pytest_collection_modifyitems e p items
     = create_branch e (p\<lparr>sent := after_run p, printed := l\<rparr>) keys"
proof -
  obtain l where pc: "plan_condition e p = (Inr False, p\<lparr>sent := after_plan p, printed := l\<rparr>)"
    using plan_condition_rejected[OF assms(2)] by blast
  let ?q = "p\<lparr>sent := after_plan p, printed := l\<rparr>"
  have rq: "run_request ?q = run_request p" by (simp add: run_request_def)
  have "testrun_id ?q = 0 \<or> not_open (client e (sent ?q) (run_request ?q))"
    using assms(3) by (simp add: run_rejected_def rq)
  from run_condition_rejected[OF this] obtain l' where
    rc0: "run_condition e ?q
      = (Inr False, ?q\<lparr>sent := (if testrun_id ?q \<noteq> 0 then sent ?q @ [run_request ?q] else sent ?q),
                       printed := l'\<rparr>)"
    by blast
  have rc: "run_condition e ?q = (Inr False, p\<lparr>sent := after_run p, printed := l'\<rparr>)"
    unfolding rc0 by (simp add: rq after_run_def)
  have "pytest_collection_modifyitems e p items
     = create_branch e (p\<lparr>sent := after_run p, printed := l'\<rparr>) keys"
    using assms(1) pc rc
    by (simp add: pytest_collection_modifyitems_def)
  then show ?thesis by blast
qed

lemma collection_create_sent:
  assumes "get_testrail_keys items = Inr keys" "plan_rejected e p" "run_rejected e p"
  shows "sent (snd (pytest_collection_modifyitems e p items))
     = after_run p @ [run_creation e p keys]"
proof -
  obtain l where "pytest_collection_modifyitems e p items
     = create_branch e (p\<lparr>sent := after_run p, printed := l\<rparr>) keys"
    using collection_create[OF assms] by blast
  then show ?thesis by (simp add: create_branch_sent run_creation_def)
qed

lemma wf_example: "well_formed [Some [''C1'', ''C2''], None, Some [''C3'']]"
  by (simp add: well_formed_def trailing_digits_def is_digit_def)

lemma declared_example: "declared_ids [Some [''C1'', ''C2''], None, Some [''C3'']] = [1, 2, 3]"
  by (simp add: declared_ids_def trailing_digits_def is_digit_def int_of_digits_def)

text \<open>
  Claim C1. Let every declared identifier end in a digit, so that the collection raises
  nothing. If a plan identifier is configured and the fetched plan is confirmed open, the
  plan is kept and the run identifier is set to 0, with no other call of the client.
  Else, if a run identifier is configured and the fetched run is confirmed open, the run
  is kept and the plan identifier is set to 0. Else, the last call of the collection asks
  for a new run whose \<open>case_ids\<close> are the declared identifiers of all collected tests,
  one test after the other. Here "else" is a fetch that was not made, that reported an
  error, or that found the entity completed.
\<close>

theorem run_target_precedence:
  "well_formed items \<longrightarrow>
     get_testrail_keys items = Inr (declared_ids items)
     \<and> (plan_selected e p \<longrightarrow>
          pytest_collection_modifyitems e p items
            = (None, p\<lparr>sent := sent p @ [plan_request p], testrun_id := 0\<rparr>))
     \<and> (plan_rejected e p \<and> run_selected e p \<longrightarrow>
          fst (pytest_collection_modifyitems e p items) = None
          \<and> testplan_id (snd (pytest_collection_modifyitems e p items)) = 0
          \<and> testrun_id (snd (pytest_collection_modifyitems e p items)) = testrun_id p
          \<and> sent (snd (pytest_collection_modifyitems e p items)) = after_plan p @ [run_request p])
     \<and> (plan_rejected e p \<and> run_rejected e p \<longrightarrow>
          sent (snd (pytest_collection_modifyitems e p items))
            = after_run p @ [run_creation e p (declared_ids items)])"
proof
  assume wf: "well_formed items"
  have 1: "plan_selected e p \<longrightarrow>
          pytest_collection_modifyitems e p items
            = (None, p\<lparr>sent := sent p @ [plan_request p], testrun_id := 0\<rparr>)"
    using collection_plan[OF get_testrail_keys_declared[OF wf]] by blast
  have 2: "plan_rejected e p \<and> run_selected e p \<longrightarrow>
          fst (pytest_collection_modifyitems e p items) = None
          \<and> testplan_id (snd (pytest_collection_modifyitems e p items)) = 0
          \<and> testrun_id (snd (pytest_collection_modifyitems e p items)) = testrun_id p
          \<and> sent (snd (pytest_collection_modifyitems e p items)) = after_plan p @ [run_request p]"
  proof
    assume a: "plan_rejected e p \<and> run_selected e p"
    then obtain l where "pytest_collection_modifyitems e p items
       = (None, p\<lparr>sent := after_plan p @ [run_request p], printed := l, testplan_id := 0\<rparr>)"
      using collection_run[OF get_testrail_keys_declared[OF wf], of e p] by blast
    then show "fst (pytest_collection_modifyitems e p items) = None
          \<and> testplan_id (snd (pytest_collection_modifyitems e p items)) = 0
          \<and> testrun_id (snd (pytest_collection_modifyitems e p items)) = testrun_id p
          \<and> sent (snd (pytest_collection_modifyitems e p items)) = after_plan p @ [run_request p]"
      by simp
  qed
  have 3: "plan_rejected e p \<and> run_rejected e p \<longrightarrow>
          sent (snd (pytest_collection_modifyitems e p items))
            = after_run p @ [run_creation e p (declared_ids items)]"
    using collection_create_sent[OF get_testrail_keys_declared[OF wf], of e p] by blast
  from get_testrail_keys_declared[OF wf] 1 2 3
  show "get_testrail_keys items = Inr (declared_ids items)
     \<and> (plan_selected e p \<longrightarrow>
          pytest_collection_modifyitems e p items
            = (None, p\<lparr>sent := sent p @ [plan_request p], testrun_id := 0\<rparr>))
     \<and> (plan_rejected e p \<and> run_selected e p \<longrightarrow>
          fst (pytest_collection_modifyitems e p items) = None
          \<and> testplan_id (snd (pytest_collection_modifyitems e p items)) = 0
          \<and> testrun_id (snd (pytest_collection_modifyitems e p items)) = testrun_id p
          \<and> sent (snd (pytest_collection_modifyitems e p items)) = after_plan p @ [run_request p])
     \<and> (plan_rejected e p \<and> run_rejected e p \<longrightarrow>
          sent (snd (pytest_collection_modifyitems e p items))
            = after_run p @ [run_creation e p (declared_ids items)])"
    by (intro conjI)
qed

theorem run_target_precedence_witness:
  "pytest_collection_modifyitems accepting (PyTestRailPlugin 1 2 3 True None 5 9 [] True 0 True)
       [Some [''C1'', ''C2''], None, Some [''C3'']]
     = (None, (PyTestRailPlugin 1 2 3 True None 0 9 [] True 0 True)
               \<lparr>sent := [SendGet (GET_TESTPLAN_URL 9) True]\<rparr>)
   \<and> testplan_id (snd (pytest_collection_modifyitems accepting
         (PyTestRailPlugin 1 2 3 True None 5 0 [] True 0 True)
         [Some [''C1'', ''C2''], None, Some [''C3'']])) = 0
   \<and> testrun_id (snd (pytest_collection_modifyitems accepting
         (PyTestRailPlugin 1 2 3 True None 5 0 [] True 0 True)
         [Some [''C1'', ''C2''], None, Some [''C3'']])) = 5
   \<and> sent (snd (pytest_collection_modifyitems all_completed
         (PyTestRailPlugin 1 2 3 True (Some ''nightly'') 5 9 [] True 0 True)
         [Some [''C1'', ''C2''], None, Some [''C3'']]))
     = [SendGet (GET_TESTPLAN_URL 9) True, SendGet (GET_TESTRUN_URL 5) True,
        SendPost (ADD_TESTRUN_URL 2)
          (RunData \<lparr> rd_suite_id = 3, rd_name = ''nightly'', rd_assignedto_id = 1,
                     rd_include_all = False, rd_case_ids = [1, 2, 3], rd_milestone_id = 0 \<rparr>)
          True]"
proof -
  note t = mp[OF run_target_precedence wf_example, THEN conjunct2]
  have a: "plan_selected accepting (PyTestRailPlugin 1 2 3 True None 5 9 [] True 0 True)"
    by (simp add: plan_selected_def accepting_def confirmed_open_def is_error_def
        PyTestRailPlugin_def)
  have b: "plan_rejected accepting (PyTestRailPlugin 1 2 3 True None 5 0 [] True 0 True)
      \<and> run_selected accepting (PyTestRailPlugin 1 2 3 True None 5 0 [] True 0 True)"
    by (simp add: plan_rejected_def run_selected_def accepting_def confirmed_open_def is_error_def
        PyTestRailPlugin_def)
  have c: "plan_rejected all_completed (PyTestRailPlugin 1 2 3 True (Some ''nightly'') 5 9 [] True 0 True)
      \<and> run_rejected all_completed (PyTestRailPlugin 1 2 3 True (Some ''nightly'') 5 9 [] True 0 True)"
    by (simp add: plan_rejected_def run_rejected_def all_completed_def not_open_def
        PyTestRailPlugin_def plan_request_def run_request_def)
  have 1: "pytest_collection_modifyitems accepting (PyTestRailPlugin 1 2 3 True None 5 9 [] True 0 True)
       [Some [''C1'', ''C2''], None, Some [''C3'']]
     = (None, (PyTestRailPlugin 1 2 3 True None 0 9 [] True 0 True)
               \<lparr>sent := [SendGet (GET_TESTPLAN_URL 9) True]\<rparr>)"
    using mp[OF t[THEN conjunct1] a] by (simp add: PyTestRailPlugin_def plan_request_def)
  note r = mp[OF t[THEN conjunct2, THEN conjunct1] b]
  have 3: "sent (snd (pytest_collection_modifyitems all_completed
         (PyTestRailPlugin 1 2 3 True (Some ''nightly'') 5 9 [] True 0 True)
         [Some [''C1'', ''C2''], None, Some [''C3'']]))
     = [SendGet (GET_TESTPLAN_URL 9) True, SendGet (GET_TESTRUN_URL 5) True,
        SendPost (ADD_TESTRUN_URL 2)
          (RunData \<lparr> rd_suite_id = 3, rd_name = ''nightly'', rd_assignedto_id = 1,
                     rd_include_all = False, rd_case_ids = [1, 2, 3], rd_milestone_id = 0 \<rparr>)
          True]"
    using mp[OF t[THEN conjunct2, THEN conjunct2] c]
    by (simp add: declared_example after_run_def after_plan_def run_creation_def
        PyTestRailPlugin_def plan_request_def run_request_def)
  from 1 r 3 show ?thesis by (simp add: PyTestRailPlugin_def)
qed

section \<open>The two identifiers during the session\<close>

lemma is_available_ids:
  "testrun_id (snd (is_available e p url what)) = testrun_id p"
  "testplan_id (snd (is_available e p url what)) = testplan_id p"
  "results (snd (is_available e p url what)) = results p"
  by (simp_all add: is_available_def send_def print_line_def split: option.splits)

lemma plan_condition_ids:
  "testrun_id (snd (plan_condition e p)) = testrun_id p"
  "testplan_id (snd (plan_condition e p)) = testplan_id p"
  by (simp_all add: plan_condition_def is_testplan_available_def is_available_ids)

lemma run_condition_ids:
  "testrun_id (snd (run_condition e p)) = testrun_id p"
  "testplan_id (snd (run_condition e p)) = testplan_id p"
  by (simp_all add: run_condition_def is_testrun_available_def is_available_ids)

lemma create_test_run_plan_id:
  "testplan_id (snd (create_test_run e q a pr su name keys m)) = testplan_id q"
  by (simp add: create_test_run_def send_def print_line_def Let_def split: option.splits)

lemma create_branch_plan_id: "testplan_id (snd (create_branch e q keys)) = testplan_id q"
  by (simp add: create_branch_def Let_def create_test_run_plan_id)

text \<open>The collection writes the plan identifier only to clear it.\<close>

lemma collection_plan_id:
  "testplan_id (snd (pytest_collection_modifyitems e p items)) = testplan_id p
   \<or> testplan_id (snd (pytest_collection_modifyitems e p items)) = 0"
proof (cases "get_testrail_keys items")
  case (Inl err)
  then show ?thesis by (simp add: pytest_collection_modifyitems_def)
next
  case (Inr keys)
  obtain a p1 where pc: "plan_condition e p = (a, p1)" by (cases "plan_condition e p")
  have p1: "testplan_id p1 = testplan_id p" using plan_condition_ids(2)[of e p] pc by simp
  obtain b p2 where rc: "run_condition e p1 = (b, p2)" by (cases "run_condition e p1")
  have p2: "testplan_id p2 = testplan_id p" using run_condition_ids(2)[of e p1] rc p1 by simp
  show ?thesis
    using Inr pc rc p1 p2 create_branch_plan_id[of e p2 keys]
    by (auto simp: pytest_collection_modifyitems_def split: sum.splits bool.splits)
qed

lemma makereport_ids:
  "testrun_id (snd (pytest_runtest_makereport q marker when outcome longrepr dur)) = testrun_id q"
  "testplan_id (snd (pytest_runtest_makereport q marker when outcome longrepr dur)) = testplan_id q"
  by (simp_all add: pytest_runtest_makereport_def add_result_def split: option.splits sum.splits)

lemma get_available_testruns_ids:
  "testrun_id (snd (get_available_testruns e p plan)) = testrun_id p"
  "testplan_id (snd (get_available_testruns e p plan)) = testplan_id p"
  by (simp_all add: get_available_testruns_def send_def print_line_def split: option.splits)

lemma sessionfinish_ids:
  "testrun_id (snd (pytest_sessionfinish e q)) = testrun_id q"
  "testplan_id (snd (pytest_sessionfinish e q)) = testplan_id q"
proof -
  let ?p2 = "print_line (tag @ '' Testcases to publish: ''
      @ join '', '' (map (\<lambda>r. str_int (case_id r)) (results (print_line (tag @ '' Start publishing'') q))))
      (print_line (tag @ '' Start publishing'') q)"
  obtain a p3 where g: "get_available_testruns e ?p2 (testplan_id ?p2) = (a, p3)"
    by (cases "get_available_testruns e ?p2 (testplan_id ?p2)")
  have "testrun_id p3 = testrun_id q" "testplan_id p3 = testplan_id q"
    using get_available_testruns_ids[of e ?p2 "testplan_id ?p2"] g
    by (simp_all add: print_line_def)
  then show "testrun_id (snd (pytest_sessionfinish e q)) = testrun_id q"
    "testplan_id (snd (pytest_sessionfinish e q)) = testplan_id q"
    using g
    by (simp_all add: pytest_sessionfinish_def Let_def print_line_def add_results_fields
        add_results_to_runs_fields split: sum.splits)
qed

lemma sessionfinish_run_sent:
  assumes "testrun_id q \<noteq> 0" "results q \<noteq> []"
  shows "sent (snd (pytest_sessionfinish e q)) =
     sent q @ map (result_request e q (testrun_id q))
                (filter (\<lambda>r. add_skips q \<or> status_id r \<noteq> 2) (sort_results (results q)))"
proof -
  let ?p2 = "print_line (tag @ '' Testcases to publish: ''
      @ join '', '' (map (\<lambda>r. str_int (case_id r)) (results (print_line (tag @ '' Start publishing'') q))))
      (print_line (tag @ '' Start publishing'') q)"
  have rq: "result_request e ?p2 (testrun_id q) = result_request e q (testrun_id q)"
    by (rule ext) (simp add: result_request_def result_payload_def print_line_def)
  have "sent (snd (pytest_sessionfinish e q)) = sent (add_results e ?p2 (testrun_id q))"
    using assms by (simp add: pytest_sessionfinish_def Let_def print_line_def)
  also have "\<dots> = sent ?p2 @ map (result_request e ?p2 (testrun_id q))
                (filter (\<lambda>r. add_skips ?p2 \<or> status_id r \<noteq> 2) (sort_results (results ?p2)))"
    by (rule add_results_sent)
  finally have "sent (snd (pytest_sessionfinish e q)) = sent ?p2 @ map (result_request e ?p2 (testrun_id q))
                (filter (\<lambda>r. add_skips ?p2 \<or> status_id r \<noteq> 2) (sort_results (results ?p2)))" .
  moreover have "sent ?p2 = sent q" "add_skips ?p2 = add_skips q" "results ?p2 = results q"
    by (simp_all add: print_line_def)
  ultimately show ?thesis by (simp only: rq)
qed

text \<open>
  Claim C3 says that when the creation of the run fails, no target is left and the end
  of the session submits nothing, whatever identifiers were configured. Here run 5 is
  configured, its fetch and the creation of a run are both refused: \<open>create_test_run\<close>
  only prints the error, the run identifier stays 5, and \<open>pytest_sessionfinish\<close> submits
  the result of case 7 to run 5.
\<close>

theorem failed_creation_publishes_to_stale_run:
  "pytest_collection_modifyitems refusing
       (PyTestRailPlugin 1 2 3 True (Some ''nightly'') 5 0 [] True 0 True) [Some [''C7'']]
     = (None, (PyTestRailPlugin 1 2 3 True (Some ''nightly'') 5 0 [] True 0 True)
          \<lparr>sent := [SendGet (GET_TESTRUN_URL 5) True,
                    SendPost (ADD_TESTRUN_URL 2)
                      (RunData \<lparr> rd_suite_id = 3, rd_name = ''nightly'', rd_assignedto_id = 1,
                                 rd_include_all = False, rd_case_ids = [7], rd_milestone_id = 0 \<rparr>)
                      True],
            printed := [tag @ '' Failed to retrieve testrun: \"denied\"'',
                        tag @ '' Failed to create testrun: \"denied\"'']\<rparr>)
   \<and> filter is_result_submission
        (sent (snd (pytest_sessionfinish refusing
           (snd (pytest_runtest_makereport
              (snd (pytest_collection_modifyitems refusing
                 (PyTestRailPlugin 1 2 3 True (Some ''nightly'') 5 0 [] True 0 True) [Some [''C7'']]))
              (Some [''C7'']) ''call'' ''passed'' PyNone 0)))))
     = [SendPost (ADD_RESULT_URL 5 7)
          (ResultData \<lparr>d_status_id = 1, d_version = None, d_comment = None, d_elapsed = None\<rparr>)
          True]"
proof -
  let ?p = "PyTestRailPlugin 1 2 3 True (Some ''nightly'') 5 0 [] True 0 True"
  let ?p1 = "?p\<lparr>sent := [SendGet (GET_TESTRUN_URL 5) True,
                    SendPost (ADD_TESTRUN_URL 2)
                      (RunData \<lparr> rd_suite_id = 3, rd_name = ''nightly'', rd_assignedto_id = 1,
                                 rd_include_all = False, rd_case_ids = [7], rd_milestone_id = 0 \<rparr>)
                      True],
            printed := [tag @ '' Failed to retrieve testrun: \"denied\"'',
                        tag @ '' Failed to create testrun: \"denied\"'']\<rparr>"
  have k: "clean_test_ids [''C7''] = Inr [7]"
    by (simp add: clean_test_id_def match_here_def is_digit_def int_of_digits_def)
  have k': "get_testrail_keys [Some [''C7'']] = Inr [7]"
    by (simp add: clean_test_id_def match_here_def is_digit_def int_of_digits_def)
  have c: "pytest_collection_modifyitems refusing ?p [Some [''C7'']] = (None, ?p1)"
    by (simp only: pytest_collection_modifyitems_def k')
      (simp add: plan_condition_def run_condition_def
        create_branch_def create_test_run_def is_testrun_available_def is_available_def
        send_def print_line_def refusing_def PyTestRailPlugin_def is_error_def str_error_def Let_def)
  let ?p2 = "add_result ?p1 [7] 1 PyNone 0"
  have m: "pytest_runtest_makereport ?p1 (Some [''C7'']) ''call'' ''passed'' PyNone 0 = (None, ?p2)"
    by (simp only: pytest_runtest_makereport_def k option.case)
      (simp add: get_test_outcome_def PYTEST_TO_TESTRAIL_STATUS_def)
  have f: "testrun_id ?p2 = 5" "results ?p2 = [\<lparr>case_id = 7, status_id = 1, comment = PyNone, duration = 0\<rparr>]"
    "add_skips ?p2" "sent ?p2 = sent ?p1"
    by (simp_all add: add_result_def PyTestRailPlugin_def)
  have "sent (snd (pytest_sessionfinish refusing ?p2)) =
     sent ?p2 @ map (result_request refusing ?p2 (testrun_id ?p2))
                (filter (\<lambda>r. add_skips ?p2 \<or> status_id r \<noteq> 2) (sort_results (results ?p2)))"
    by (rule sessionfinish_run_sent) (simp_all only: f, simp_all)
  then have "sent (snd (pytest_sessionfinish refusing ?p2)) =
     sent ?p1 @ [result_request refusing ?p2 5 \<lparr>case_id = 7, status_id = 1, comment = PyNone, duration = 0\<rparr>]"
    by (simp only: f) (simp add: sort_results_def)
  then have "filter is_result_submission (sent (snd (pytest_sessionfinish refusing ?p2)))
     = [SendPost (ADD_RESULT_URL 5 7)
          (ResultData \<lparr>d_status_id = 1, d_version = None, d_comment = None, d_elapsed = None\<rparr>)
          True]"
    by (simp add: result_request_def result_payload_def add_result_def PyTestRailPlugin_def)
  with c m show ?thesis by simp
qed

section \<open>Errors of the service at the end of the session\<close>

lemma int_of_digits_str_int: "0 \<le> c \<Longrightarrow> int_of_digits (str_int c) = c"
  by (simp add: str_int_def int_of_digits_str_nat)

lemma not_published_text:
  "not_published c (Some msg) =
     ''[testrail] Info: Testcase #'' @ str_int c @ '' not published for following reason: \"''
     @ msg @ ''\"''"
  by (simp add: not_published_def tag_def TESTRAIL_PREFIX_def str_error_def)

text \<open>
  An exception leaves \<open>pytest_sessionfinish\<close> only when the plan is read and its answer
  lacks a key; the submissions raise nothing.
\<close>

lemma sessionfinish_raises:
  "fst (pytest_sessionfinish e q) =
     (if results q \<noteq> [] \<and> testrun_id q = 0 \<and> testplan_id q \<noteq> 0
      then (if is_error (r_error (client e (sent q)
                   (SendGet (GET_TESTPLAN_URL (testplan_id q)) (cert_check q))))
            then None
            else (case r_entries (client e (sent q)
                        (SendGet (GET_TESTPLAN_URL (testplan_id q)) (cert_check q))) of
                    None \<Rightarrow> Some KeyError
                  | Some es \<Rightarrow> (case open_runs_of_entries es of
                                 Inl err \<Rightarrow> Some err | Inr runs \<Rightarrow> None)))
      else None)"
  by (simp add: pytest_sessionfinish_def get_available_testruns_def send_def print_line_def
      Let_def split: option.splits sum.splits)

lemma str_int_examples:
  "str_int 7 = ''7''" "str_int 8 = ''8''" "str_int 100 = ''100''" "str_int 5 = ''5''"
  "str_int 9 = ''9''"
  by code_simp+

text \<open>
  Claim C6. When the client reports an error for the submission of a record, the loop
  of \<open>add_results\<close> prints a line that names the case of that record, written in
  decimal so that the number can be read back, and the error, and goes on: whatever the
  client answers, the records after it that are not suppressed are submitted, each once
  and in order. The submissions raise nothing: an exception leaves
  \<open>pytest_sessionfinish\<close> only when it reads a plan whose answer lacks a key.
\<close>

theorem failed_submission_continues:
  "(\<not> suppressed p (result_payload e p r)
      \<and> r_error (client e (sent p) (result_request e p run r)) = Some msg \<and> msg \<noteq> [] \<longrightarrow>
      publish_one e run p r =
        p\<lparr>sent := sent p @ [result_request e p run r],
          printed := printed p @
            [''[testrail] Info: Testcase #'' @ str_int (case_id r)
             @ '' not published for following reason: \"'' @ msg @ ''\"'']\<rparr>)
   \<and> (0 \<le> case_id r \<longrightarrow> int_of_digits (str_int (case_id r)) = case_id r)
   \<and> sent (publish_all e run p (r # rs)) =
        sent (publish_one e run p r)
        @ map (result_request e p run) (filter (\<lambda>x. add_skips p \<or> status_id x \<noteq> 2) rs)
   \<and> sent (add_results e p run) =
        sent p @ map (result_request e p run)
                   (filter (\<lambda>r. add_skips p \<or> status_id r \<noteq> 2) (sort_results (results p)))
   \<and> fst (pytest_sessionfinish e p) =
       (if results p \<noteq> [] \<and> testrun_id p = 0 \<and> testplan_id p \<noteq> 0
        then (if is_error (r_error (client e (sent p)
                     (SendGet (GET_TESTPLAN_URL (testplan_id p)) (cert_check p))))
              then None
              else (case r_entries (client e (sent p)
                          (SendGet (GET_TESTPLAN_URL (testplan_id p)) (cert_check p))) of
                      None \<Rightarrow> Some KeyError
                    | Some es \<Rightarrow> (case open_runs_of_entries es of
                                   Inl err \<Rightarrow> Some err | Inr runs \<Rightarrow> None)))
        else None)"
proof -
  have 1: "\<not> suppressed p (result_payload e p r)
      \<and> r_error (client e (sent p) (result_request e p run r)) = Some msg \<and> msg \<noteq> [] \<longrightarrow>
      publish_one e run p r =
        p\<lparr>sent := sent p @ [result_request e p run r],
          printed := printed p @
            [''[testrail] Info: Testcase #'' @ str_int (case_id r)
             @ '' not published for following reason: \"'' @ msg @ ''\"'']\<rparr>"
  proof
    assume a: "\<not> suppressed p (result_payload e p r)
      \<and> r_error (client e (sent p) (result_request e p run r)) = Some msg \<and> msg \<noteq> []"
    then have "is_error (r_error (client e (sent p) (result_request e p run r)))"
      by (simp add: is_error_def)
    with a have "publish_one e run p r =
        p\<lparr>sent := sent p @ [result_request e p run r],
          printed := printed p @ [not_published (case_id r) (Some msg)]\<rparr>"
      using publish_one_error[of p e r run] by simp
    then show "publish_one e run p r =
        p\<lparr>sent := sent p @ [result_request e p run r],
          printed := printed p @
            [''[testrail] Info: Testcase #'' @ str_int (case_id r)
             @ '' not published for following reason: \"'' @ msg @ ''\"'']\<rparr>"
      by (simp only: not_published_text)
  qed
  have 2: "0 \<le> case_id r \<longrightarrow> int_of_digits (str_int (case_id r)) = case_id r"
    by (simp add: int_of_digits_str_int)
  from 1 2 publish_all_Cons_sent[of e run p r rs] add_results_sent[of e p run]
    sessionfinish_raises[of e p]
  show ?thesis by (intro conjI)
qed

theorem failed_submission_continues_witness:
  "printed (publish_one refusing 100 (PyTestRailPlugin 1 2 3 True None 100 0 [] True 0 True)
             \<lparr>case_id = 7, status_id = 5, comment = PyNone, duration = 0\<rparr>)
     = [''[testrail] Info: Testcase #7 not published for following reason: \"denied\"'']
   \<and> int_of_digits (str_int 7) = 7
   \<and> sent (publish_all refusing 100 (PyTestRailPlugin 1 2 3 True None 100 0 [] True 0 True)
             [\<lparr>case_id = 7, status_id = 5, comment = PyNone, duration = 0\<rparr>,
              \<lparr>case_id = 8, status_id = 1, comment = PyNone, duration = 0\<rparr>])
     = [SendPost ''add_result_for_case/100/7''
          (ResultData \<lparr>d_status_id = 5, d_version = None, d_comment = None, d_elapsed = None\<rparr>)
          True,
        SendPost ''add_result_for_case/100/8''
          (ResultData \<lparr>d_status_id = 1, d_version = None, d_comment = None, d_elapsed = None\<rparr>)
          True]
   \<and> pytest_sessionfinish refusing
        (add_result (add_result (PyTestRailPlugin 1 2 3 True None 100 0 [] True 0 True)
           [8] 1 PyNone 0) [7] 5 PyNone 0)
     = (None,
        (PyTestRailPlugin 1 2 3 True None 100 0 [] True 0 True)
          \<lparr>results := [\<lparr>case_id = 7, status_id = 5, comment = PyNone, duration = 0\<rparr>,
                        \<lparr>case_id = 8, status_id = 1, comment = PyNone, duration = 0\<rparr>],
            sent := [SendPost ''add_result_for_case/100/7''
                       (ResultData \<lparr>d_status_id = 5, d_version = None, d_comment = None,
                                     d_elapsed = None\<rparr>) True,
                     SendPost ''add_result_for_case/100/8''
                       (ResultData \<lparr>d_status_id = 1, d_version = None, d_comment = None,
                                     d_elapsed = None\<rparr>) True],
            printed := [''[testrail] Start publishing'',
                        ''[testrail] Testcases to publish: 8, 7'',
                        ''[testrail] Info: Testcase #7 not published for following reason: \"denied\"'',
                        ''[testrail] Info: Testcase #8 not published for following reason: \"denied\"'',
                        ''[testrail] End publishing'']\<rparr>)
   \<and> fst (pytest_sessionfinish keyless
        (add_result (PyTestRailPlugin 1 2 3 True None 0 9 [] True 0 True) [7] 5 PyNone 0))
     = Some KeyError"
proof -
  let ?p = "PyTestRailPlugin 1 2 3 True None 100 0 [] True 0 True"
  let ?r7 = "\<lparr>case_id = 7, status_id = 5, comment = PyNone, duration = 0\<rparr>"
  let ?r8 = "\<lparr>case_id = 8, status_id = 1, comment = PyNone, duration = 0\<rparr>"
  let ?q = "add_result (add_result ?p [8] 1 PyNone 0) [7] 5 PyNone 0"
  let ?k = "add_result (PyTestRailPlugin 1 2 3 True None 0 9 [] True 0 True) [7] 5 PyNone 0"
  note t = failed_submission_continues
  have h: "\<not> suppressed ?p (result_payload refusing ?p ?r7)
      \<and> r_error (client refusing (sent ?p) (result_request refusing ?p 100 ?r7)) = Some ''denied''
      \<and> ''denied'' \<noteq> []"
    by (simp add: suppressed_iff PyTestRailPlugin_def refusing_def)
  have "publish_one refusing 100 ?p ?r7 =
        ?p\<lparr>sent := sent ?p @ [result_request refusing ?p 100 ?r7],
          printed := printed ?p @
            [''[testrail] Info: Testcase #'' @ str_int (case_id ?r7)
             @ '' not published for following reason: \"'' @ ''denied'' @ ''\"'']\<rparr>"
    by (rule mp[OF t[THEN conjunct1] h])
  then have 1: "printed (publish_one refusing 100 ?p ?r7)
     = [''[testrail] Info: Testcase #7 not published for following reason: \"denied\"'']"
    by (simp add: PyTestRailPlugin_def str_int_examples)
  have 2: "int_of_digits (str_int 7) = 7"
    using t[of _ _ ?r7, THEN conjunct2, THEN conjunct1] by simp
  have a3: "sent (publish_all refusing 100 ?p (?r7 # [?r8])) =
        sent (publish_one refusing 100 ?p ?r7)
        @ map (result_request refusing ?p 100) (filter (\<lambda>x. add_skips ?p \<or> status_id x \<noteq> 2) [?r8])"
    by (rule t[THEN conjunct2, THEN conjunct2, THEN conjunct1])
  have b3: "sent (publish_one refusing 100 ?p ?r7)
        @ map (result_request refusing ?p 100) (filter (\<lambda>x. add_skips ?p \<or> status_id x \<noteq> 2) [?r8])
     = [SendPost ''add_result_for_case/100/7''
          (ResultData \<lparr>d_status_id = 5, d_version = None, d_comment = None, d_elapsed = None\<rparr>)
          True,
        SendPost ''add_result_for_case/100/8''
          (ResultData \<lparr>d_status_id = 1, d_version = None, d_comment = None, d_elapsed = None\<rparr>)
          True]"
    by (simp add: publish_one_sent suppressed_def PYTEST_TO_TESTRAIL_STATUS_def result_request_def
        result_payload_def ADD_RESULT_URL_def str_int_examples PyTestRailPlugin_def)
  have 3: "sent (publish_all refusing 100 ?p [?r7, ?r8])
     = [SendPost ''add_result_for_case/100/7''
          (ResultData \<lparr>d_status_id = 5, d_version = None, d_comment = None, d_elapsed = None\<rparr>)
          True,
        SendPost ''add_result_for_case/100/8''
          (ResultData \<lparr>d_status_id = 1, d_version = None, d_comment = None, d_elapsed = None\<rparr>)
          True]"
    using a3 by (simp only: b3)
  have 5: "fst (pytest_sessionfinish keyless ?k) = Some KeyError"
    using t[of ?k keyless, THEN conjunct2, THEN conjunct2, THEN conjunct2, THEN conjunct2]
    by (simp add: add_result_def PyTestRailPlugin_def keyless_def is_error_def)
  have 4: "pytest_sessionfinish refusing ?q
     = (None,
        ?p\<lparr>results := [?r7, ?r8],
            sent := [SendPost ''add_result_for_case/100/7''
                       (ResultData \<lparr>d_status_id = 5, d_version = None, d_comment = None,
                                     d_elapsed = None\<rparr>) True,
                     SendPost ''add_result_for_case/100/8''
                       (ResultData \<lparr>d_status_id = 1, d_version = None, d_comment = None,
                                     d_elapsed = None\<rparr>) True],
            printed := [''[testrail] Start publishing'',
                        ''[testrail] Testcases to publish: 8, 7'',
                        ''[testrail] Info: Testcase #7 not published for following reason: \"denied\"'',
                        ''[testrail] Info: Testcase #8 not published for following reason: \"denied\"'',
                        ''[testrail] End publishing'']\<rparr>)"
    by (simp add: pytest_sessionfinish_def add_results_def sort_results_def publish_one_def
        suppressed_def PYTEST_TO_TESTRAIL_STATUS_def send_def print_line_def add_result_def PyTestRailPlugin_def refusing_def
        is_error_def not_published_text result_request_def result_payload_def ADD_RESULT_URL_def
        str_int_examples tag_def TESTRAIL_PREFIX_def Let_def)
  from 1 2 3 4 5 show ?thesis by (intro conjI)
qed

section \<open>The identifiers after a run was created\<close>

text \<open>
  Claim C2 says that after the collection at most one of the two identifiers is set,
  and that selecting one target clears the other. The branches that select the
  configured plan or the configured run clear the other identifier; the branch that
  creates a run does not. With plan 9 configured and completed, and no run configured,
  the collection creates run 100 and leaves the plan identifier at 9: both are set, and
  both are still set after \<open>pytest_sessionfinish\<close>.
\<close>

theorem created_run_keeps_stale_plan:
  "pytest_collection_modifyitems all_completed
       (PyTestRailPlugin 1 2 3 True (Some ''nightly'') 0 9 [] True 0 True) []
     = (None, (PyTestRailPlugin 1 2 3 True (Some ''nightly'') 100 9 [] True 0 True)
          \<lparr>sent := [SendGet ''get_plan/9'' True,
                    SendPost ''add_run/2''
                      (RunData \<lparr> rd_suite_id = 3, rd_name = ''nightly'', rd_assignedto_id = 1,
                                 rd_include_all = False, rd_case_ids = [], rd_milestone_id = 0 \<rparr>)
                      True],
            printed := [''[testrail] New testrun created with name \"nightly\" and ID=100'']\<rparr>)
   \<and> testrun_id (snd (pytest_collection_modifyitems all_completed
       (PyTestRailPlugin 1 2 3 True (Some ''nightly'') 0 9 [] True 0 True) [])) = 100
   \<and> testplan_id (snd (pytest_collection_modifyitems all_completed
       (PyTestRailPlugin 1 2 3 True (Some ''nightly'') 0 9 [] True 0 True) [])) = 9
   \<and> \<not> at_most_one_target (snd (pytest_collection_modifyitems all_completed
       (PyTestRailPlugin 1 2 3 True (Some ''nightly'') 0 9 [] True 0 True) []))
   \<and> \<not> at_most_one_target (snd (pytest_sessionfinish all_completed
       (snd (pytest_collection_modifyitems all_completed
          (PyTestRailPlugin 1 2 3 True (Some ''nightly'') 0 9 [] True 0 True) []))))"
proof -
  let ?res = "pytest_collection_modifyitems all_completed
       (PyTestRailPlugin 1 2 3 True (Some ''nightly'') 0 9 [] True 0 True) []"
  have u: "GET_TESTPLAN_URL 9 = ''get_plan/9''" "ADD_TESTRUN_URL 2 = ''add_run/2''"
    by (simp_all add: GET_TESTPLAN_URL_def ADD_TESTRUN_URL_def) code_simp+
  have c: "?res
     = (None, (PyTestRailPlugin 1 2 3 True (Some ''nightly'') 100 9 [] True 0 True)
          \<lparr>sent := [SendGet ''get_plan/9'' True,
                    SendPost ''add_run/2''
                      (RunData \<lparr> rd_suite_id = 3, rd_name = ''nightly'', rd_assignedto_id = 1,
                                 rd_include_all = False, rd_case_ids = [], rd_milestone_id = 0 \<rparr>)
                      True],
            printed := [''[testrail] New testrun created with name \"nightly\" and ID=100'']\<rparr>)"
    by (simp add: pytest_collection_modifyitems_def plan_condition_def run_condition_def
        create_branch_def create_test_run_def is_testplan_available_def is_available_def
        send_def print_line_def all_completed_def PyTestRailPlugin_def is_error_def Let_def
        u str_int_examples tag_def TESTRAIL_PREFIX_def)
  have i: "testrun_id (snd ?res) = 100" "testplan_id (snd ?res) = 9"
    unfolding c by (simp_all add: PyTestRailPlugin_def)
  then have a: "\<not> at_most_one_target (snd ?res)"
    by (simp add: at_most_one_target_def)
  have "\<not> at_most_one_target (snd (pytest_sessionfinish all_completed (snd ?res)))"
    using i by (simp add: at_most_one_target_def sessionfinish_ids)
  with c i a show ?thesis by (intro conjI)
qed

end
